theory Spec2Isabelle
  imports Complex_Main "HOL-Library.AList" "HOL-Library.Sublist"
begin

section \<open>Data model\<close>

text \<open>
  The notebooks are scripts over three external libraries (rasterio, fiona, numpy).
  Values that cross the boundary between the notebooks and the libraries are modelled
  as data; the libraries themselves are a parameter of every notebook (a record of
  functions over an abstract world \<open>'w\<close> that holds the file system and the datasets).
\<close>

type_synonym path = string
type_synonym crs = string

datatype error =
    FileNotFound path
  | InvalidGeometry
  | UnsupportedCRS crs
  | LibraryError string
  | IndexError
  | ValueError

text \<open>The six coefficients of an affine transform:
  \<open>x = a * col + b * row + c\<close>, \<open>y = d * col + e * row + f\<close>.\<close>

record affine =
  af_a :: rat
  af_b :: rat
  af_c :: rat
  af_d :: rat
  af_e :: rat
  af_f :: rat

text \<open>A bounding box in the order of rasterio's \<open>BoundingBox\<close>: left, bottom, right, top.\<close>

type_synonym bbox = "rat \<times> rat \<times> rat \<times> rat"

text \<open>A numpy array: its shape and its values in row-major order.\<close>

record ndarray =
  shape :: "nat list"
  flat :: "int list"

text \<open>\<open>arr.shape[i]\<close>: indexing a tuple out of range raises IndexError.\<close>

definition shape_at :: "ndarray \<Rightarrow> nat \<Rightarrow> error + nat" where
  "shape_at arr i = (if i < length (shape arr) then Inr (shape arr ! i) else Inl IndexError)"

text \<open>\<open>arr.min()\<close> and \<open>arr.max()\<close>: the least and the greatest of all values; numpy
  raises ValueError on an array with no values.\<close>

definition amin :: "ndarray \<Rightarrow> error + int" where
  "amin arr = (if flat arr = [] then Inl ValueError else Inr (Min (set (flat arr))))"

definition amax :: "ndarray \<Rightarrow> error + int" where
  "amax arr = (if flat arr = [] then Inl ValueError else Inr (Max (set (flat arr))))"

text \<open>Cutting a list into \<open>n\<close> pieces of length \<open>k\<close>.\<close>

fun chunks :: "nat \<Rightarrow> nat \<Rightarrow> 'x list \<Rightarrow> 'x list list" where
  "chunks 0 k xs = []"
| "chunks (Suc n) k xs = take k xs # chunks n k (drop k xs)"

text \<open>Iterating an array gives its sub-arrays along the first axis; an array with no
  axis cannot be iterated (numpy raises TypeError, here ValueError).\<close>

definition subarrays :: "ndarray \<Rightarrow> error + ndarray list" where
  "subarrays arr =
     (case shape arr of
        [] \<Rightarrow> Inl ValueError
      | n # rest \<Rightarrow> Inr (map (\<lambda>vs. \<lparr>shape = rest, flat = vs\<rparr>) (chunks n (prod_list rest) (flat arr))))"

text \<open>\<open>a, b, c, d = arr\<close>: ValueError unless there are exactly four sub-arrays.\<close>

definition unpack4 :: "ndarray \<Rightarrow> error + ndarray \<times> ndarray \<times> ndarray \<times> ndarray" where
  "unpack4 arr =
     (case subarrays arr of
        Inl err \<Rightarrow> Inl err
      | Inr [x1, x2, x3, x4] \<Rightarrow> Inr (x1, x2, x3, x4)
      | Inr xs \<Rightarrow> Inl ValueError)"

text \<open>\<open>arr[i, j]\<close> on a two-dimensional array: a negative index counts from the end,
  an index out of range raises IndexError.\<close>

definition getitem2 :: "ndarray \<Rightarrow> int \<Rightarrow> int \<Rightarrow> error + int" where
  "getitem2 arr i j =
     (case shape arr of
        [h, w] \<Rightarrow>
          (let i1 = (if i < 0 then int h + i else i);
               j1 = (if j < 0 then int w + j else j)
           in if 0 \<le> i1 \<and> i1 < int h \<and> 0 \<le> j1 \<and> j1 < int w \<and> nat i1 * w + nat j1 < length (flat arr)
              then Inr (flat arr ! (nat i1 * w + nat j1))
              else Inl IndexError)
      | sh \<Rightarrow> Inl IndexError)"

text \<open>The values of a dataset's metadata dictionary, and the dictionary itself
  (also the keyword arguments of \<open>rasterio.open\<close>).\<close>

datatype mval =
    MStr string
  | MInt int
  | MNum rat
  | MNone
  | MCrs crs
  | MTransform affine

type_synonym kwargs = "(string \<times> mval) list"

text \<open>\<open>d.update({k1: v1, ...})\<close>: each key is replaced where it is, or appended.\<close>

definition dict_update :: "kwargs \<Rightarrow> kwargs \<Rightarrow> kwargs" where
  "dict_update d us = fold (\<lambda>(k, v). AList.update k v) us d"

datatype geometry =
    Polygon "(rat \<times> rat) list list"
  | MultiPolygon "(rat \<times> rat) list list list"

record feature =
  geometry :: geometry
  properties :: "(string \<times> string) list"

datatype mode = R | W

text \<open>A dataset (or collection) object: its identity, the file it was opened on and
  the mode.\<close>

record handle =
  hid :: nat
  hname :: path
  hmode :: mode

text \<open>\<open>rasterio.band(ds, bidx)\<close>: a dataset and a one-based band index.\<close>

type_synonym band = "handle \<times> nat"

section \<open>Library calls and their trace\<close>

text \<open>
  Every call into a library is recorded with its arguments and with what the library
  returned (\<open>Inl\<close>: the error it raised).
\<close>

datatype event =
    EOpen handle kwargs "error + unit"
  | EClose handle
  | EShow handle "error + unit"
  | EFionaOpen handle "error + unit"
  | EFeatures handle "error + feature list"
  | EMask handle "geometry list" bool "error + ndarray \<times> affine"
  | EPrintShape "nat list"
  | EMeta handle "error + kwargs"
  | EWrite handle ndarray "error + unit"
  | ECrs handle "error + crs"
  | EWidth handle "error + int"
  | EHeight handle "error + int"
  | EBounds handle "error + bbox"
  | ECount handle "error + nat"
  | ETransform handle "error + affine"
  | ECalc crs crs int int bbox "error + affine \<times> int \<times> int"
  | EReproject band band affine crs affine crs "error + unit"
  | ERead handle "error + ndarray"
  | EReadBand handle nat "error + ndarray"
  | EIndexes handle "error + nat list"
  | EIndex handle rat rat "error + int \<times> int"
  | EPrintBand nat int int
  | EPrintOverall int int
  | EPrintPixel string int

record 'w library =
  l_open :: "handle \<Rightarrow> kwargs \<Rightarrow> 'w \<Rightarrow> (error + unit) \<times> 'w"
  l_close :: "handle \<Rightarrow> 'w \<Rightarrow> 'w"
  l_show :: "handle \<Rightarrow> 'w \<Rightarrow> (error + unit) \<times> 'w"
  l_fiona_open :: "handle \<Rightarrow> 'w \<Rightarrow> (error + unit) \<times> 'w"
  l_features :: "handle \<Rightarrow> 'w \<Rightarrow> (error + feature list) \<times> 'w"
  l_mask :: "handle \<Rightarrow> geometry list \<Rightarrow> bool \<Rightarrow> 'w \<Rightarrow> (error + ndarray \<times> affine) \<times> 'w"
  l_meta :: "handle \<Rightarrow> 'w \<Rightarrow> (error + kwargs) \<times> 'w"
  l_write :: "handle \<Rightarrow> ndarray \<Rightarrow> 'w \<Rightarrow> (error + unit) \<times> 'w"
  l_crs :: "handle \<Rightarrow> 'w \<Rightarrow> (error + crs) \<times> 'w"
  l_width :: "handle \<Rightarrow> 'w \<Rightarrow> (error + int) \<times> 'w"
  l_height :: "handle \<Rightarrow> 'w \<Rightarrow> (error + int) \<times> 'w"
  l_bounds :: "handle \<Rightarrow> 'w \<Rightarrow> (error + bbox) \<times> 'w"
  l_count :: "handle \<Rightarrow> 'w \<Rightarrow> (error + nat) \<times> 'w"
  l_transform :: "handle \<Rightarrow> 'w \<Rightarrow> (error + affine) \<times> 'w"
  l_calculate_default_transform ::
    "crs \<Rightarrow> crs \<Rightarrow> int \<Rightarrow> int \<Rightarrow> bbox \<Rightarrow> 'w \<Rightarrow> (error + affine \<times> int \<times> int) \<times> 'w"
  l_reproject ::
    "band \<Rightarrow> band \<Rightarrow> affine \<Rightarrow> crs \<Rightarrow> affine \<Rightarrow> crs \<Rightarrow> 'w \<Rightarrow> (error + unit) \<times> 'w"
  l_read :: "handle \<Rightarrow> 'w \<Rightarrow> (error + ndarray) \<times> 'w"
  l_read_band :: "handle \<Rightarrow> nat \<Rightarrow> 'w \<Rightarrow> (error + ndarray) \<times> 'w"
  l_indexes :: "handle \<Rightarrow> 'w \<Rightarrow> (error + nat list) \<times> 'w"
  l_index :: "handle \<Rightarrow> rat \<Rightarrow> rat \<Rightarrow> (rat \<Rightarrow> int) \<Rightarrow> 'w \<Rightarrow> (error + int \<times> int) \<times> 'w"

text \<open>The state of a notebook session: the libraries' world, the next object identity
  and the calls made so far (oldest first).\<close>

record 'w session =
  world :: 'w
  next_id :: nat
  trace :: "event list"

definition init :: "'w \<Rightarrow> 'w session" where
  "init w = \<lparr>world = w, next_id = 0, trace = []\<rparr>"

type_synonym ('x, 'w) prog = "'w session \<Rightarrow> (error + 'x) \<times> 'w session"

text \<open>Sequencing: an error ends the script (an uncaught exception), the state stays.\<close>

definition ret :: "'x \<Rightarrow> ('x, 'w) prog" where
  "ret x s = (Inr x, s)"

definition bnd :: "('x, 'w) prog \<Rightarrow> ('x \<Rightarrow> ('y, 'w) prog) \<Rightarrow> ('y, 'w) prog" where
  "bnd m k s = (case m s of (Inl err, s1) \<Rightarrow> (Inl err, s1) | (Inr x, s1) \<Rightarrow> k x s1)"

text \<open>A value computed by Python itself (no library call is logged).\<close>

definition lift :: "error + 'x \<Rightarrow> ('x, 'w) prog" where
  "lift r s = (r, s)"

definition log :: "event \<Rightarrow> (unit, 'w) prog" where
  "log ev s = (Inr (), s\<lparr>trace := trace s @ [ev]\<rparr>)"

text \<open>One library call: run it on the world, record the call and its outcome.\<close>

definition call :: "(error + 'x \<Rightarrow> event) \<Rightarrow> ('w \<Rightarrow> (error + 'x) \<times> 'w) \<Rightarrow> ('x, 'w) prog" where
  "call mk op s =
     (case op (world s) of (r, w1) \<Rightarrow> (r, s\<lparr>world := w1, trace := trace s @ [mk r]\<rparr>))"

text \<open>\<open>rasterio.open(path, mode, **kw)\<close>: a new object on success.\<close>

definition rasterio_open :: "'w library \<Rightarrow> path \<Rightarrow> mode \<Rightarrow> kwargs \<Rightarrow> (handle, 'w) prog" where
  "rasterio_open lib p m kw s =
     (let h = \<lparr>hid = next_id s, hname = p, hmode = m\<rparr> in
      case call (EOpen h kw) (l_open lib h kw) s of
        (Inl err, s1) \<Rightarrow> (Inl err, s1)
      | (Inr u, s1) \<Rightarrow> (Inr h, s1\<lparr>next_id := next_id s1 + 1\<rparr>))"

definition fiona_open :: "'w library \<Rightarrow> path \<Rightarrow> (handle, 'w) prog" where
  "fiona_open lib p s =
     (let h = \<lparr>hid = next_id s, hname = p, hmode = R\<rparr> in
      case call (EFionaOpen h) (l_fiona_open lib h) s of
        (Inl err, s1) \<Rightarrow> (Inl err, s1)
      | (Inr u, s1) \<Rightarrow> (Inr h, s1\<lparr>next_id := next_id s1 + 1\<rparr>))"

definition close :: "'w library \<Rightarrow> handle \<Rightarrow> 'w session \<Rightarrow> 'w session" where
  "close lib h s = s\<lparr>world := l_close lib h (world s), trace := trace s @ [EClose h]\<rparr>"

text \<open>\<open>with opener as h: body\<close>: the object is closed when the block is left, by
  return or by exception; the exception then goes on.\<close>

definition with_block :: "'w library \<Rightarrow> (handle, 'w) prog \<Rightarrow> (handle \<Rightarrow> ('x, 'w) prog) \<Rightarrow> ('x, 'w) prog" where
  "with_block lib opener body =
     bnd opener (\<lambda>h s. case body h s of (r, s1) \<Rightarrow> (r, close lib h s1))"

section \<open>Notebook: clip a satellite image and reproject it\<close>

definition image_file :: path where
  "image_file = ''example.tif''"

definition target_crs :: crs where
  "target_crs = ''EPSG:4326''"

text \<open>\<open>satdat = rasterio.open(image_file)\<close>\<close>

definition cell_open :: "'w library \<Rightarrow> (handle, 'w) prog" where
  "cell_open lib = rasterio_open lib image_file R []"

text \<open>\<open>show(satdat)\<close>\<close>

definition cell_show :: "'w library \<Rightarrow> handle \<Rightarrow> (unit, 'w) prog" where
  "cell_show lib ds = call (EShow ds) (l_show lib ds)"

text \<open>\<open>with fiona.open('aoi.geojson') as f: aoi = [feature["geometry"] for feature in f]\<close>\<close>

definition cell_aoi :: "'w library \<Rightarrow> (geometry list, 'w) prog" where
  "cell_aoi lib =
     with_block lib (fiona_open lib ''aoi.geojson'')
       (\<lambda>coll. bnd (call (EFeatures coll) (l_features lib coll)) (\<lambda>fs. ret (map geometry fs)))"

text \<open>\<open>with rasterio.open('example.tif') as img: clipped, transform = mask(img, aoi, crop=True)\<close>
  and \<open>print(clipped.shape)\<close>; \<open>img\<close> stays bound after the block.\<close>

definition cell_mask :: "'w library \<Rightarrow> geometry list \<Rightarrow> (handle \<times> ndarray \<times> affine, 'w) prog" where
  "cell_mask lib aoi =
     bnd (with_block lib (rasterio_open lib ''example.tif'' R [])
            (\<lambda>img. bnd (call (EMask img aoi True) (l_mask lib img aoi True))
               (\<lambda>(clipped, transform). ret (img, clipped, transform))))
       (\<lambda>(img, clipped, transform).
          bnd (log (EPrintShape (shape clipped))) (\<lambda>u. ret (img, clipped, transform)))"

text \<open>\<open>meta = img.meta.copy()\<close>, \<open>meta.update({...})\<close>,
  \<open>with rasterio.open('clipped.tif', 'w', **meta) as dst: dst.write(clipped)\<close>\<close>

definition cell_write_clipped :: "'w library \<Rightarrow> handle \<Rightarrow> ndarray \<Rightarrow> affine \<Rightarrow> (unit, 'w) prog" where
  "cell_write_clipped lib img clipped transform =
     bnd (call (EMeta img) (l_meta lib img)) (\<lambda>meta.
     bnd (lift (shape_at clipped 1)) (\<lambda>h.
     bnd (lift (shape_at clipped 2)) (\<lambda>w.
     with_block lib
       (rasterio_open lib ''clipped.tif'' W
          (dict_update meta
             [(''transform'', MTransform transform),
              (''height'', MInt (int h)),
              (''width'', MInt (int w))]))
       (\<lambda>dst. call (EWrite dst clipped) (l_write lib dst clipped)))))"

text \<open>\<open>clipped_img = rasterio.open("clipped.tif")\<close>, \<open>show(clipped_img)\<close>\<close>

definition cell_open_clipped :: "'w library \<Rightarrow> (handle, 'w) prog" where
  "cell_open_clipped lib =
     bnd (rasterio_open lib ''clipped.tif'' R []) (\<lambda>clipped_img.
     bnd (call (EShow clipped_img) (l_show lib clipped_img)) (\<lambda>u. ret clipped_img))"

text \<open>\<open>transform, width, height = calculate_default_transform(clipped_img.crs, target_crs,
  clipped_img.width, clipped_img.height, *clipped_img.bounds)\<close>\<close>

definition cell_calculate :: "'w library \<Rightarrow> handle \<Rightarrow> (affine \<times> int \<times> int, 'w) prog" where
  "cell_calculate lib clipped_img =
     bnd (call (ECrs clipped_img) (l_crs lib clipped_img)) (\<lambda>src_crs.
     bnd (call (EWidth clipped_img) (l_width lib clipped_img)) (\<lambda>w.
     bnd (call (EHeight clipped_img) (l_height lib clipped_img)) (\<lambda>h.
     bnd (call (EBounds clipped_img) (l_bounds lib clipped_img)) (\<lambda>bounds.
     call (ECalc src_crs target_crs w h bounds)
       (l_calculate_default_transform lib src_crs target_crs w h bounds)))))"

text \<open>\<open>metadata = clipped_img.meta.copy()\<close>, \<open>metadata.update({...})\<close>\<close>

definition cell_metadata :: "'w library \<Rightarrow> handle \<Rightarrow> affine \<Rightarrow> int \<Rightarrow> int \<Rightarrow> (kwargs, 'w) prog" where
  "cell_metadata lib clipped_img transform width height =
     bnd (call (EMeta clipped_img) (l_meta lib clipped_img)) (\<lambda>metadata.
     ret (dict_update metadata
            [(''crs'', MCrs target_crs),
             (''transform'', MTransform transform),
             (''width'', MInt width),
             (''height'', MInt height)]))"

text \<open>The body of \<open>for band in range(1, clipped_img.count + 1)\<close>, over the band indices
  still to do.\<close>

fun reproject_bands ::
  "'w library \<Rightarrow> handle \<Rightarrow> handle \<Rightarrow> affine \<Rightarrow> nat list \<Rightarrow> (unit, 'w) prog" where
  "reproject_bands lib clipped_img reprojected transform [] = ret ()"
| "reproject_bands lib clipped_img reprojected transform (band # bands) =
     bnd (call (ETransform clipped_img) (l_transform lib clipped_img)) (\<lambda>src_transform.
     bnd (call (ECrs clipped_img) (l_crs lib clipped_img)) (\<lambda>src_crs.
     bnd (call (EReproject (clipped_img, band) (reprojected, band)
                  src_transform src_crs transform target_crs)
            (l_reproject lib (clipped_img, band) (reprojected, band)
               src_transform src_crs transform target_crs)) (\<lambda>u.
     reproject_bands lib clipped_img reprojected transform bands)))"

text \<open>\<open>with rasterio.open('clipped_4326.tif', 'w', **metadata) as reprojected: for ...\<close>\<close>

definition cell_reproject :: "'w library \<Rightarrow> handle \<Rightarrow> kwargs \<Rightarrow> affine \<Rightarrow> (unit, 'w) prog" where
  "cell_reproject lib clipped_img metadata transform =
     with_block lib (rasterio_open lib ''clipped_4326.tif'' W metadata)
       (\<lambda>reprojected.
          bnd (call (ECount clipped_img) (l_count lib clipped_img)) (\<lambda>n.
          reproject_bands lib clipped_img reprojected transform [1..<n + 1]))"

text \<open>\<open>reproj = rasterio.open("clipped_4326.tif")\<close>, \<open>show(reproj)\<close>\<close>

definition cell_open_reprojected :: "'w library \<Rightarrow> (unit, 'w) prog" where
  "cell_open_reprojected lib =
     bnd (rasterio_open lib ''clipped_4326.tif'' R []) (\<lambda>reproj.
     call (EShow reproj) (l_show lib reproj))"

text \<open>The cells in the order of the notebook.\<close>

definition clip_and_reproject :: "'w library \<Rightarrow> (unit, 'w) prog" where
  "clip_and_reproject lib =
     bnd (cell_open lib) (\<lambda>satdat.
     bnd (cell_show lib satdat) (\<lambda>u.
     bnd (cell_aoi lib) (\<lambda>aoi.
     bnd (cell_mask lib aoi) (\<lambda>(img, clipped, transform).
     bnd (cell_write_clipped lib img clipped transform) (\<lambda>u.
     bnd (cell_open_clipped lib) (\<lambda>clipped_img.
     bnd (cell_calculate lib clipped_img) (\<lambda>(transform, width, height).
     bnd (cell_metadata lib clipped_img transform width height) (\<lambda>metadata.
     bnd (cell_reproject lib clipped_img metadata transform) (\<lambda>u.
     cell_open_reprojected lib)))))))))"

section \<open>Notebook: rasterio datasets and numpy arrays\<close>

text \<open>\<open>satdat = rasterio.open("example.tif")\<close>\<close>

definition cell_load :: "'w library \<Rightarrow> (handle, 'w) prog" where
  "cell_load lib = rasterio_open lib ''example.tif'' R []"

text \<open>\<open>blue, green, red, nir = satdat.read()\<close>\<close>

definition cell_parse_bands ::
  "'w library \<Rightarrow> handle \<Rightarrow> (ndarray \<times> ndarray \<times> ndarray \<times> ndarray, 'w) prog" where
  "cell_parse_bands lib satdat =
     bnd (call (ERead satdat) (l_read lib satdat)) (\<lambda>data. lift (unpack4 data))"

text \<open>The loop \<open>for bidx in satdat.indexes: data = satdat.read(bidx); print("Band {bidx} min
  {min} max {max}".format(bidx=bidx, min=data.min(), max=data.max()))\<close>, over the
  indexes still to do.\<close>

fun print_band_ranges :: "'w library \<Rightarrow> handle \<Rightarrow> nat list \<Rightarrow> (unit, 'w) prog" where
  "print_band_ranges lib satdat [] = ret ()"
| "print_band_ranges lib satdat (bidx # rest) =
     bnd (call (EReadBand satdat bidx) (l_read_band lib satdat bidx)) (\<lambda>data.
     bnd (lift (amin data)) (\<lambda>lo.
     bnd (lift (amax data)) (\<lambda>hi.
     bnd (log (EPrintBand bidx lo hi)) (\<lambda>u.
     print_band_ranges lib satdat rest))))"

text \<open>The cell: the loop, then \<open>data = satdat.read()\<close> and
  \<open>print("Overall min/max: {} {}".format(data.min(), data.max()))\<close>.\<close>

definition cell_minmax :: "'w library \<Rightarrow> handle \<Rightarrow> (unit, 'w) prog" where
  "cell_minmax lib satdat =
     bnd (call (EIndexes satdat) (l_indexes lib satdat)) (\<lambda>indexes.
     bnd (print_band_ranges lib satdat indexes) (\<lambda>u.
     bnd (call (ERead satdat) (l_read lib satdat)) (\<lambda>data.
     bnd (lift (amin data)) (\<lambda>lo.
     bnd (lift (amax data)) (\<lambda>hi.
     log (EPrintOverall lo hi))))))"

text \<open>\<open>x_coord = satdat.bounds.left - 10000\<close>, \<open>y_coord = satdat.bounds.top + 10000\<close>,
  \<open>col, row = satdat.index(x_coord, y_coord, op=math.floor)\<close>, \<open>col = int(col)\<close>,
  \<open>row = int(row)\<close>: the names \<open>col\<close> and \<open>row\<close> are bound in the order of the
  source, to the first and the second component of what \<open>index\<close> returns.\<close>

definition cell_locate :: "'w library \<Rightarrow> handle \<Rightarrow> (int \<times> int, 'w) prog" where
  "cell_locate lib satdat =
     bnd (call (EBounds satdat) (l_bounds lib satdat)) (\<lambda>(left, bottom, right, top).
     bnd (call (EBounds satdat) (l_bounds lib satdat)) (\<lambda>(left2, bottom2, right2, top2).
     (let x_coord = left - 10000; y_coord = top2 + 10000 in
      bnd (call (EIndex satdat x_coord y_coord) (l_index lib satdat x_coord y_coord floor))
        (\<lambda>(col, row). ret (col, row)))))"

text \<open>\<open>print("Red: {}".format(red[row, col]))\<close> and the same for green, blue, nir.\<close>

definition cell_pixel ::
  "ndarray \<times> ndarray \<times> ndarray \<times> ndarray \<Rightarrow> int \<times> int \<Rightarrow> (unit, 'w) prog" where
  "cell_pixel bands pos =
     (case bands of (blue, green, red, nir) \<Rightarrow> (case pos of (col, row) \<Rightarrow>
      bnd (lift (getitem2 red row col)) (\<lambda>v1.
      bnd (log (EPrintPixel ''Red'' v1)) (\<lambda>u1.
      bnd (lift (getitem2 green row col)) (\<lambda>v2.
      bnd (log (EPrintPixel ''Green'' v2)) (\<lambda>u2.
      bnd (lift (getitem2 blue row col)) (\<lambda>v3.
      bnd (log (EPrintPixel ''Blue'' v3)) (\<lambda>u3.
      bnd (lift (getitem2 nir row col)) (\<lambda>v4.
      log (EPrintPixel ''NIR'' v4))))))))))"

section \<open>Observations on a trace\<close>

text \<open>The error a recorded call raised, if it raised one.\<close>

definition err_of :: "error + 'x \<Rightarrow> error option" where
  "err_of r = (case r of Inl err \<Rightarrow> Some err | Inr x \<Rightarrow> None)"

fun raised :: "event \<Rightarrow> error option" where
  "raised (EOpen h kw r) = err_of r"
| "raised (EClose h) = None"
| "raised (EShow h r) = err_of r"
| "raised (EFionaOpen h r) = err_of r"
| "raised (EFeatures h r) = err_of r"
| "raised (EMask h g cr r) = err_of r"
| "raised (EPrintShape sh) = None"
| "raised (EMeta h r) = err_of r"
| "raised (EWrite h arr r) = err_of r"
| "raised (ECrs h r) = err_of r"
| "raised (EWidth h r) = err_of r"
| "raised (EHeight h r) = err_of r"
| "raised (EBounds h r) = err_of r"
| "raised (ECount h r) = err_of r"
| "raised (ETransform h r) = err_of r"
| "raised (ECalc c1 c2 wd ht bb r) = err_of r"
| "raised (EReproject sb db st sc dt dc r) = err_of r"
| "raised (ERead h r) = err_of r"
| "raised (EReadBand h i r) = err_of r"
| "raised (EIndexes h r) = err_of r"
| "raised (EIndex h x y r) = err_of r"
| "raised (EPrintBand i lo hi) = None"
| "raised (EPrintOverall lo hi) = None"
| "raised (EPrintPixel nm v) = None"

fun is_close :: "event \<Rightarrow> bool" where
  "is_close (EClose h) = True"
| "is_close ev = False"

text \<open>
  A run with result \<open>r\<close> and calls \<open>evs\<close> propagates library errors: either no call
  raised, or the first call that raised is followed by nothing but the closing of
  with-blocks, and the error it raised is the result of the run.
\<close>

definition propagated :: "error + 'x \<Rightarrow> event list \<Rightarrow> bool" where
  "propagated r evs =
     (case dropWhile (\<lambda>ev. raised ev = None) evs of
        [] \<Rightarrow> True
      | ev # post \<Rightarrow> r = Inl (the (raised ev)) \<and> list_all is_close post)"

definition clean :: "event list \<Rightarrow> bool" where
  "clean evs = (\<forall>ev\<in>set evs. raised ev = None)"

section \<open>The possible runs of the notebook\<close>

text \<open>
  A shape describes the runs of a piece of the script: from the next object identity
  \<open>n\<close>, which results \<open>r\<close> go with which calls \<open>evs\<close>. \<open>runs m Q\<close>: every run of
  \<open>m\<close> appends to the trace calls that \<open>Q\<close> allows, and the object identities advance by
  the number of successful opens.
\<close>

fun opened :: "event \<Rightarrow> nat" where
  "opened (EOpen h kw (Inr u)) = 1"
| "opened (EFionaOpen h (Inr u)) = 1"
| "opened ev = 0"

definition opens :: "event list \<Rightarrow> nat" where
  "opens evs = sum_list (map opened evs)"

type_synonym 'x shape = "nat \<Rightarrow> error + 'x \<Rightarrow> event list \<Rightarrow> bool"

definition runs :: "('x, 'w) prog \<Rightarrow> 'x shape \<Rightarrow> bool" where
  "runs m Q = (\<forall>s. case m s of (r, s1) \<Rightarrow>
      \<exists>evs. trace s1 = trace s @ evs \<and> next_id s1 = next_id s + opens evs \<and> Q (next_id s) r evs)"

definition then_shape :: "'x shape \<Rightarrow> ('x \<Rightarrow> 'y shape) \<Rightarrow> 'y shape" where
  "then_shape P K n r evs =
     ((\<exists>err. P n (Inl err) evs \<and> r = Inl err) \<or>
      (\<exists>x evs1 evs2. P n (Inr x) evs1 \<and> K x (n + opens evs1) r evs2 \<and> evs = evs1 @ evs2))"

definition open_shape :: "path \<Rightarrow> mode \<Rightarrow> kwargs \<Rightarrow> handle shape" where
  "open_shape p m kw n r evs =
     (let h = \<lparr>hid = n, hname = p, hmode = m\<rparr> in
      (\<exists>err. evs = [EOpen h kw (Inl err)] \<and> r = Inl err) \<or>
      (evs = [EOpen h kw (Inr ())] \<and> r = Inr h))"

definition show_shape :: "handle \<Rightarrow> unit shape" where
  "show_shape ds n r evs = (evs = [EShow ds r])"

definition aoi_shape :: "(geometry list) shape" where
  "aoi_shape n r evs =
     (let h = \<lparr>hid = n, hname = ''aoi.geojson'', hmode = R\<rparr> in
      (\<exists>err. evs = [EFionaOpen h (Inl err)] \<and> r = Inl err) \<or>
      (\<exists>err. evs = [EFionaOpen h (Inr ()), EFeatures h (Inl err), EClose h] \<and> r = Inl err) \<or>
      (\<exists>fs. evs = [EFionaOpen h (Inr ()), EFeatures h (Inr fs), EClose h] \<and>
         r = Inr (map geometry fs)))"

definition mask_shape :: "geometry list \<Rightarrow> (handle \<times> ndarray \<times> affine) shape" where
  "mask_shape aoi n r evs =
     (let h = \<lparr>hid = n, hname = ''example.tif'', hmode = R\<rparr> in
      (\<exists>err. evs = [EOpen h [] (Inl err)] \<and> r = Inl err) \<or>
      (\<exists>err. evs = [EOpen h [] (Inr ()), EMask h aoi True (Inl err), EClose h] \<and> r = Inl err) \<or>
      (\<exists>clipped t. evs = [EOpen h [] (Inr ()), EMask h aoi True (Inr (clipped, t)), EClose h,
           EPrintShape (shape clipped)] \<and> r = Inr (h, clipped, t)))"

definition clipped_kwargs :: "kwargs \<Rightarrow> ndarray \<Rightarrow> affine \<Rightarrow> kwargs" where
  "clipped_kwargs meta clipped t =
     dict_update meta
       [(''transform'', MTransform t),
        (''height'', MInt (int (shape clipped ! 1))),
        (''width'', MInt (int (shape clipped ! 2)))]"

definition write_clipped_shape :: "handle \<Rightarrow> ndarray \<Rightarrow> affine \<Rightarrow> unit shape" where
  "write_clipped_shape img clipped t n r evs =
     (let dst = \<lparr>hid = n, hname = ''clipped.tif'', hmode = W\<rparr> in
      (\<exists>err. evs = [EMeta img (Inl err)] \<and> r = Inl err) \<or>
      (\<exists>meta. evs = [EMeta img (Inr meta)] \<and> r = Inl IndexError \<and> length (shape clipped) < 3) \<or>
      (\<exists>meta err. 3 \<le> length (shape clipped) \<and>
         evs = [EMeta img (Inr meta), EOpen dst (clipped_kwargs meta clipped t) (Inl err)] \<and>
         r = Inl err) \<or>
      (\<exists>meta. 3 \<le> length (shape clipped) \<and>
         evs = [EMeta img (Inr meta), EOpen dst (clipped_kwargs meta clipped t) (Inr ()),
                EWrite dst clipped r, EClose dst]))"

definition open_clipped_shape :: "handle shape" where
  "open_clipped_shape n r evs =
     (let h = \<lparr>hid = n, hname = ''clipped.tif'', hmode = R\<rparr> in
      (\<exists>err. evs = [EOpen h [] (Inl err)] \<and> r = Inl err) \<or>
      (\<exists>err. evs = [EOpen h [] (Inr ()), EShow h (Inl err)] \<and> r = Inl err) \<or>
      (evs = [EOpen h [] (Inr ()), EShow h (Inr ())] \<and> r = Inr h))"

definition calculate_shape :: "handle \<Rightarrow> (affine \<times> int \<times> int) shape" where
  "calculate_shape h n r evs =
     ((\<exists>err. evs = [ECrs h (Inl err)] \<and> r = Inl err) \<or>
      (\<exists>sc err. evs = [ECrs h (Inr sc), EWidth h (Inl err)] \<and> r = Inl err) \<or>
      (\<exists>sc wd err. evs = [ECrs h (Inr sc), EWidth h (Inr wd), EHeight h (Inl err)] \<and> r = Inl err) \<or>
      (\<exists>sc wd ht err. evs = [ECrs h (Inr sc), EWidth h (Inr wd), EHeight h (Inr ht),
           EBounds h (Inl err)] \<and> r = Inl err) \<or>
      (\<exists>sc wd ht bb. evs = [ECrs h (Inr sc), EWidth h (Inr wd), EHeight h (Inr ht),
           EBounds h (Inr bb), ECalc sc target_crs wd ht bb r]))"

definition reprojected_kwargs :: "kwargs \<Rightarrow> affine \<Rightarrow> int \<Rightarrow> int \<Rightarrow> kwargs" where
  "reprojected_kwargs metadata t wd ht =
     dict_update metadata
       [(''crs'', MCrs target_crs),
        (''transform'', MTransform t),
        (''width'', MInt wd),
        (''height'', MInt ht)]"

definition metadata_shape :: "handle \<Rightarrow> affine \<Rightarrow> int \<Rightarrow> int \<Rightarrow> kwargs shape" where
  "metadata_shape h t wd ht n r evs =
     ((\<exists>err. evs = [EMeta h (Inl err)] \<and> r = Inl err) \<or>
      (\<exists>m. evs = [EMeta h (Inr m)] \<and> r = Inr (reprojected_kwargs m t wd ht)))"

fun loop_shape :: "handle \<Rightarrow> handle \<Rightarrow> affine \<Rightarrow> nat list \<Rightarrow> error + unit \<Rightarrow> event list \<Rightarrow> bool" where
  "loop_shape src dst t [] r evs = (evs = [] \<and> r = Inr ())"
| "loop_shape src dst t (b # bs) r evs =
     ((\<exists>err. evs = [ETransform src (Inl err)] \<and> r = Inl err) \<or>
      (\<exists>st err. evs = [ETransform src (Inr st), ECrs src (Inl err)] \<and> r = Inl err) \<or>
      (\<exists>st sc err. evs = [ETransform src (Inr st), ECrs src (Inr sc),
           EReproject (src, b) (dst, b) st sc t target_crs (Inl err)] \<and> r = Inl err) \<or>
      (\<exists>st sc rest. evs = ETransform src (Inr st) # ECrs src (Inr sc) #
           EReproject (src, b) (dst, b) st sc t target_crs (Inr ()) # rest \<and>
           loop_shape src dst t bs r rest))"

definition reproject_shape :: "handle \<Rightarrow> kwargs \<Rightarrow> affine \<Rightarrow> unit shape" where
  "reproject_shape src metadata t n r evs =
     (let dst = \<lparr>hid = n, hname = ''clipped_4326.tif'', hmode = W\<rparr> in
      (\<exists>err. evs = [EOpen dst metadata (Inl err)] \<and> r = Inl err) \<or>
      (\<exists>err. evs = [EOpen dst metadata (Inr ()), ECount src (Inl err), EClose dst] \<and> r = Inl err) \<or>
      (\<exists>k levs. evs = EOpen dst metadata (Inr ()) # ECount src (Inr k) # levs @ [EClose dst] \<and>
         loop_shape src dst t [1..<k + 1] r levs))"

definition open_reprojected_shape :: "unit shape" where
  "open_reprojected_shape n r evs =
     (let h = \<lparr>hid = n, hname = ''clipped_4326.tif'', hmode = R\<rparr> in
      (\<exists>err. evs = [EOpen h [] (Inl err)] \<and> r = Inl err) \<or>
      (\<exists>err. evs = [EOpen h [] (Inr ()), EShow h (Inl err)] \<and> r = Inl err) \<or>
      (evs = [EOpen h [] (Inr ()), EShow h (Inr ())] \<and> r = Inr ()))"

definition notebook_shape :: "unit shape" where
  "notebook_shape =
     then_shape (open_shape image_file R []) (\<lambda>satdat.
     then_shape (show_shape satdat) (\<lambda>u.
     then_shape aoi_shape (\<lambda>aoi.
     then_shape (mask_shape aoi) (\<lambda>(img, clipped, transform).
     then_shape (write_clipped_shape img clipped transform) (\<lambda>u.
     then_shape open_clipped_shape (\<lambda>clipped_img.
     then_shape (calculate_shape clipped_img) (\<lambda>(transform, width, height).
     then_shape (metadata_shape clipped_img transform width height) (\<lambda>metadata.
     then_shape (reproject_shape clipped_img metadata transform) (\<lambda>u.
     open_reprojected_shape)))))))))"

text \<open>The object with identity \<open>n\<close>, opened on a file in a mode.\<close>

definition obj :: "nat \<Rightarrow> path \<Rightarrow> mode \<Rightarrow> handle" where
  "obj n p m = \<lparr>hid = n, hname = p, hmode = m\<rparr>"

text \<open>
  The runs of the whole notebook, one rule for each call that can raise and one for the
  run that completes. \<open>after_...\<close> is the trace of the calls made when a cell has
  completed, from the values the libraries returned so far.
\<close>

definition after_open :: "event list" where
  "after_open =
     [EOpen (obj 0 ''example.tif'' R) [] (Inr ())]"

definition after_show :: "event list" where
  "after_show =
     after_open @
     [EShow (obj 0 ''example.tif'' R) (Inr ())]"

definition after_aoi :: "feature list \<Rightarrow> event list" where
  "after_aoi fs =
     after_show @
     [EFionaOpen (obj 1 ''aoi.geojson'' R) (Inr ()),
      EFeatures (obj 1 ''aoi.geojson'' R) (Inr fs),
      EClose (obj 1 ''aoi.geojson'' R)]"

definition after_mask :: "feature list \<Rightarrow> ndarray \<Rightarrow> affine \<Rightarrow> event list" where
  "after_mask fs clipped t1 =
     after_aoi fs @
     [EOpen (obj 2 ''example.tif'' R) [] (Inr ()),
      EMask (obj 2 ''example.tif'' R) (map geometry fs) True (Inr (clipped, t1)),
      EClose (obj 2 ''example.tif'' R),
      EPrintShape (shape clipped)]"

definition after_write :: "feature list \<Rightarrow> ndarray \<Rightarrow> affine \<Rightarrow> kwargs \<Rightarrow> event list" where
  "after_write fs clipped t1 meta =
     after_mask fs clipped t1 @
     [EMeta (obj 2 ''example.tif'' R) (Inr meta),
      EOpen (obj 3 ''clipped.tif'' W) (clipped_kwargs meta clipped t1) (Inr ()),
      EWrite (obj 3 ''clipped.tif'' W) clipped (Inr ()),
      EClose (obj 3 ''clipped.tif'' W)]"

definition after_reopen :: "feature list \<Rightarrow> ndarray \<Rightarrow> affine \<Rightarrow> kwargs \<Rightarrow> event list" where
  "after_reopen fs clipped t1 meta =
     after_write fs clipped t1 meta @
     [EOpen (obj 4 ''clipped.tif'' R) [] (Inr ()),
      EShow (obj 4 ''clipped.tif'' R) (Inr ())]"

definition after_calculate :: "feature list \<Rightarrow> ndarray \<Rightarrow> affine \<Rightarrow> kwargs \<Rightarrow> crs \<Rightarrow> int \<Rightarrow> int \<Rightarrow> bbox \<Rightarrow> affine \<Rightarrow> int \<Rightarrow> int \<Rightarrow> event list" where
  "after_calculate fs clipped t1 meta sc wd ht bb t2 w2 h2 =
     after_reopen fs clipped t1 meta @
     [ECrs (obj 4 ''clipped.tif'' R) (Inr sc),
      EWidth (obj 4 ''clipped.tif'' R) (Inr wd),
      EHeight (obj 4 ''clipped.tif'' R) (Inr ht),
      EBounds (obj 4 ''clipped.tif'' R) (Inr bb),
      ECalc sc target_crs wd ht bb (Inr (t2, w2, h2))]"

definition after_metadata :: "feature list \<Rightarrow> ndarray \<Rightarrow> affine \<Rightarrow> kwargs \<Rightarrow> crs \<Rightarrow> int \<Rightarrow> int \<Rightarrow> bbox \<Rightarrow> affine \<Rightarrow> int \<Rightarrow> int \<Rightarrow> kwargs \<Rightarrow> event list" where
  "after_metadata fs clipped t1 meta sc wd ht bb t2 w2 h2 meta2 =
     after_calculate fs clipped t1 meta sc wd ht bb t2 w2 h2 @
     [EMeta (obj 4 ''clipped.tif'' R) (Inr meta2)]"

definition after_reproject :: "feature list \<Rightarrow> ndarray \<Rightarrow> affine \<Rightarrow> kwargs \<Rightarrow> crs \<Rightarrow> int \<Rightarrow> int \<Rightarrow> bbox \<Rightarrow> affine \<Rightarrow> int \<Rightarrow> int \<Rightarrow> kwargs \<Rightarrow> nat \<Rightarrow> event list \<Rightarrow> event list" where
  "after_reproject fs clipped t1 meta sc wd ht bb t2 w2 h2 meta2 k levs =
     after_metadata fs clipped t1 meta sc wd ht bb t2 w2 h2 meta2 @
     [EOpen (obj 5 ''clipped_4326.tif'' W) (reprojected_kwargs meta2 t2 w2 h2) (Inr ()),
      ECount (obj 4 ''clipped.tif'' R) (Inr k)] @
     levs @ [EClose (obj 5 ''clipped_4326.tif'' W)]"

inductive possible_run :: "error + unit \<Rightarrow> event list \<Rightarrow> bool" where
  open_raises: "possible_run (Inl err)
      ([EOpen (obj 0 ''example.tif'' R) [] (Inl err)])"
| show_raises: "possible_run (Inl err)
      (after_open @ [EShow (obj 0 ''example.tif'' R) (Inl err)])"
| vector_open_raises: "possible_run (Inl err)
      (after_show @ [EFionaOpen (obj 1 ''aoi.geojson'' R) (Inl err)])"
| features_raise: "possible_run (Inl err)
      (after_show @ [EFionaOpen (obj 1 ''aoi.geojson'' R) (Inr ()),
       EFeatures (obj 1 ''aoi.geojson'' R) (Inl err),
       EClose (obj 1 ''aoi.geojson'' R)])"
| open_image_raises: "possible_run (Inl err)
      (after_aoi fs @ [EOpen (obj 2 ''example.tif'' R) [] (Inl err)])"
| mask_raises: "possible_run (Inl err)
      (after_aoi fs @ [EOpen (obj 2 ''example.tif'' R) [] (Inr ()),
       EMask (obj 2 ''example.tif'' R) (map geometry fs) True (Inl err),
       EClose (obj 2 ''example.tif'' R)])"
| meta_raises: "possible_run (Inl err)
      (after_mask fs clipped t1 @ [EMeta (obj 2 ''example.tif'' R) (Inl err)])"
| shape_too_short: "length (shape clipped) < 3 \<Longrightarrow>
    possible_run (Inl IndexError)
      (after_mask fs clipped t1 @ [EMeta (obj 2 ''example.tif'' R) (Inr meta)])"
| create_clipped_raises: "3 \<le> length (shape clipped) \<Longrightarrow>
    possible_run (Inl err)
      (after_mask fs clipped t1 @ [EMeta (obj 2 ''example.tif'' R) (Inr meta),
       EOpen (obj 3 ''clipped.tif'' W) (clipped_kwargs meta clipped t1) (Inl err)])"
| write_raises: "3 \<le> length (shape clipped) \<Longrightarrow>
    possible_run (Inl err)
      (after_mask fs clipped t1 @ [EMeta (obj 2 ''example.tif'' R) (Inr meta),
       EOpen (obj 3 ''clipped.tif'' W) (clipped_kwargs meta clipped t1) (Inr ()),
       EWrite (obj 3 ''clipped.tif'' W) clipped (Inl err),
       EClose (obj 3 ''clipped.tif'' W)])"
| reopen_raises: "3 \<le> length (shape clipped) \<Longrightarrow>
    possible_run (Inl err)
      (after_write fs clipped t1 meta @ [EOpen (obj 4 ''clipped.tif'' R) [] (Inl err)])"
| show_clipped_raises: "3 \<le> length (shape clipped) \<Longrightarrow>
    possible_run (Inl err)
      (after_write fs clipped t1 meta @ [EOpen (obj 4 ''clipped.tif'' R) [] (Inr ()),
       EShow (obj 4 ''clipped.tif'' R) (Inl err)])"
| crs_raises: "3 \<le> length (shape clipped) \<Longrightarrow>
    possible_run (Inl err)
      (after_reopen fs clipped t1 meta @ [ECrs (obj 4 ''clipped.tif'' R) (Inl err)])"
| width_raises: "3 \<le> length (shape clipped) \<Longrightarrow>
    possible_run (Inl err)
      (after_reopen fs clipped t1 meta @ [ECrs (obj 4 ''clipped.tif'' R) (Inr sc),
       EWidth (obj 4 ''clipped.tif'' R) (Inl err)])"
| height_raises: "3 \<le> length (shape clipped) \<Longrightarrow>
    possible_run (Inl err)
      (after_reopen fs clipped t1 meta @ [ECrs (obj 4 ''clipped.tif'' R) (Inr sc),
       EWidth (obj 4 ''clipped.tif'' R) (Inr wd),
       EHeight (obj 4 ''clipped.tif'' R) (Inl err)])"
| bounds_raise: "3 \<le> length (shape clipped) \<Longrightarrow>
    possible_run (Inl err)
      (after_reopen fs clipped t1 meta @ [ECrs (obj 4 ''clipped.tif'' R) (Inr sc),
       EWidth (obj 4 ''clipped.tif'' R) (Inr wd),
       EHeight (obj 4 ''clipped.tif'' R) (Inr ht),
       EBounds (obj 4 ''clipped.tif'' R) (Inl err)])"
| calculate_raises: "3 \<le> length (shape clipped) \<Longrightarrow>
    possible_run (Inl err)
      (after_reopen fs clipped t1 meta @ [ECrs (obj 4 ''clipped.tif'' R) (Inr sc),
       EWidth (obj 4 ''clipped.tif'' R) (Inr wd),
       EHeight (obj 4 ''clipped.tif'' R) (Inr ht),
       EBounds (obj 4 ''clipped.tif'' R) (Inr bb),
       ECalc sc target_crs wd ht bb (Inl err)])"
| metadata_raises: "3 \<le> length (shape clipped) \<Longrightarrow>
    possible_run (Inl err)
      (after_calculate fs clipped t1 meta sc wd ht bb t2 w2 h2 @ [EMeta (obj 4 ''clipped.tif'' R) (Inl err)])"
| create_reprojected_raises: "3 \<le> length (shape clipped) \<Longrightarrow>
    possible_run (Inl err)
      (after_metadata fs clipped t1 meta sc wd ht bb t2 w2 h2 meta2 @ [EOpen (obj 5 ''clipped_4326.tif'' W) (reprojected_kwargs meta2 t2 w2 h2) (Inl err)])"
| count_raises: "3 \<le> length (shape clipped) \<Longrightarrow>
    possible_run (Inl err)
      (after_metadata fs clipped t1 meta sc wd ht bb t2 w2 h2 meta2 @ [EOpen (obj 5 ''clipped_4326.tif'' W) (reprojected_kwargs meta2 t2 w2 h2) (Inr ()),
       ECount (obj 4 ''clipped.tif'' R) (Inl err),
       EClose (obj 5 ''clipped_4326.tif'' W)])"
| loop_raises: "3 \<le> length (shape clipped) \<Longrightarrow>
    loop_shape (obj 4 ''clipped.tif'' R) (obj 5 ''clipped_4326.tif'' W) t2 [Suc 0..<Suc k] (Inl err) levs \<Longrightarrow>
    possible_run (Inl err) (after_reproject fs clipped t1 meta sc wd ht bb t2 w2 h2 meta2 k levs)"
| open_result_raises: "3 \<le> length (shape clipped) \<Longrightarrow>
    loop_shape (obj 4 ''clipped.tif'' R) (obj 5 ''clipped_4326.tif'' W) t2 [Suc 0..<Suc k] (Inr ()) levs \<Longrightarrow>
    possible_run (Inl err)
      (after_reproject fs clipped t1 meta sc wd ht bb t2 w2 h2 meta2 k levs @ [EOpen (obj 6 ''clipped_4326.tif'' R) [] (Inl err)])"
| show_result_raises: "3 \<le> length (shape clipped) \<Longrightarrow>
    loop_shape (obj 4 ''clipped.tif'' R) (obj 5 ''clipped_4326.tif'' W) t2 [Suc 0..<Suc k] (Inr ()) levs \<Longrightarrow>
    possible_run (Inl err)
      (after_reproject fs clipped t1 meta sc wd ht bb t2 w2 h2 meta2 k levs @
       [EOpen (obj 6 ''clipped_4326.tif'' R) [] (Inr ()),
        EShow (obj 6 ''clipped_4326.tif'' R) (Inl err)])"
| completes: "3 \<le> length (shape clipped) \<Longrightarrow>
    loop_shape (obj 4 ''clipped.tif'' R) (obj 5 ''clipped_4326.tif'' W) t2 [Suc 0..<Suc k] (Inr ()) levs \<Longrightarrow>
    possible_run (Inr ())
      (after_reproject fs clipped t1 meta sc wd ht bb t2 w2 h2 meta2 k levs @
       [EOpen (obj 6 ''clipped_4326.tif'' R) [] (Inr ()),
        EShow (obj 6 ''clipped_4326.tif'' R) (Inr ())])"

section \<open>A small in-memory library\<close>

text \<open>
  A concrete input for the notebooks: a library whose world is a table of raster files
  (metadata and bands). Opening for writing creates the file with the given metadata,
  the accessors read the metadata back, \<open>bounds\<close> and \<open>index\<close> are computed from the
  transform as rasterio computes them; masking, the default transform and the
  resampling itself return fixed values.
\<close>

text \<open>\<open>numpy.stack\<close> of equally shaped arrays along a new first axis.\<close>

definition stack :: "ndarray list \<Rightarrow> ndarray" where
  "stack bs =
     \<lparr>shape = length bs # (case bs of [] \<Rightarrow> [] | b0 # rest \<Rightarrow> shape b0),
      flat = concat (map flat bs)\<rparr>"

record raster =
  r_meta :: kwargs
  r_bands :: "ndarray list"

type_synonym files = "(path \<times> raster) list"

definition reading :: "files \<Rightarrow> handle \<Rightarrow> (raster \<Rightarrow> error + 'x) \<Rightarrow> (error + 'x) \<times> files" where
  "reading fs h g =
     (case map_of fs (hname h) of
        None \<Rightarrow> (Inl (FileNotFound (hname h)), fs)
      | Some ras \<Rightarrow> (g ras, fs))"

definition meta_int :: "string \<Rightarrow> raster \<Rightarrow> error + int" where
  "meta_int k ras =
     (case map_of (r_meta ras) k of Some (MInt n) \<Rightarrow> Inr n | other \<Rightarrow> Inl (LibraryError k))"

definition meta_crs :: "raster \<Rightarrow> error + crs" where
  "meta_crs ras =
     (case map_of (r_meta ras) ''crs'' of Some (MCrs cs) \<Rightarrow> Inr cs | other \<Rightarrow> Inl (LibraryError ''crs''))"

definition meta_transform :: "raster \<Rightarrow> error + affine" where
  "meta_transform ras =
     (case map_of (r_meta ras) ''transform'' of
        Some (MTransform t) \<Rightarrow> Inr t
      | other \<Rightarrow> Inl (LibraryError ''transform''))"

text \<open>rasterio's \<open>bounds\<close>: \<open>BoundingBox(c, f + e * height, c + a * width, f)\<close>.\<close>

definition raster_bounds :: "raster \<Rightarrow> error + bbox" where
  "raster_bounds ras =
     (case (meta_transform ras, meta_int ''width'' ras, meta_int ''height'' ras) of
        (Inr t, Inr wd, Inr ht) \<Rightarrow>
          Inr (af_c t, af_f t + af_e t * of_int ht, af_c t + af_a t * of_int wd, af_f t)
      | other \<Rightarrow> Inl (LibraryError ''bounds''))"

text \<open>rasterio's \<open>index\<close>: the inverse transform applied to \<open>(x, y)\<close>, each coordinate
  rounded by \<open>op\<close>, returned as \<open>(row, col)\<close>.\<close>

definition raster_index :: "rat \<Rightarrow> rat \<Rightarrow> (rat \<Rightarrow> int) \<Rightarrow> raster \<Rightarrow> error + int \<times> int" where
  "raster_index x y rnd ras =
     (case meta_transform ras of
        Inl err \<Rightarrow> Inl err
      | Inr t \<Rightarrow>
          (let det = af_a t * af_e t - af_b t * af_d t in
           if det = 0 then Inl (LibraryError ''transform'')
           else Inr (rnd ((af_a t * (y - af_f t) - af_d t * (x - af_c t)) / det),
                     rnd ((af_e t * (x - af_c t) - af_b t * (y - af_f t)) / det))))"

definition clip_transform :: affine where
  "clip_transform = \<lparr>af_a = 3, af_b = 0, af_c = 500003, af_d = 0, af_e = -3, af_f = 3999997\<rparr>"

definition geo_transform :: affine where
  "geo_transform =
     \<lparr>af_a = 1 / 36000, af_b = 0, af_c = -123, af_d = 0, af_e = - (1 / 36000), af_f = 36\<rparr>"

definition sample_clipped :: ndarray where
  "sample_clipped = \<lparr>shape = [4, 1, 2], flat = [11, 12, 21, 22, 31, 32, 41, 42]\<rparr>"

definition sample_aoi :: "feature list" where
  "sample_aoi =
     [\<lparr>geometry = Polygon [[(500003, 3999997), (500009, 3999997), (500009, 3999994),
          (500003, 3999994), (500003, 3999997)]],
       properties = []\<rparr>]"

definition memory_lib :: "files library" where
  "memory_lib =
     \<lparr>l_open = (\<lambda>h kw fs.
         if hmode h = W then (Inr (), AList.update (hname h) \<lparr>r_meta = kw, r_bands = []\<rparr> fs)
         else reading fs h (\<lambda>ras. Inr ())),
      l_close = (\<lambda>h fs. fs),
      l_show = (\<lambda>h fs. reading fs h (\<lambda>ras. Inr ())),
      l_fiona_open = (\<lambda>h fs. (Inr (), fs)),
      l_features = (\<lambda>h fs. (Inr sample_aoi, fs)),
      l_mask = (\<lambda>h shapes crop fs. reading fs h (\<lambda>ras. Inr (sample_clipped, clip_transform))),
      l_meta = (\<lambda>h fs. reading fs h (\<lambda>ras. Inr (r_meta ras))),
      l_write = (\<lambda>h arr fs.
         case subarrays arr of
           Inl err \<Rightarrow> (Inl err, fs)
         | Inr bs \<Rightarrow> (Inr (), AList.map_entry (hname h) (\<lambda>ras. ras\<lparr>r_bands := bs\<rparr>) fs)),
      l_crs = (\<lambda>h fs. reading fs h meta_crs),
      l_width = (\<lambda>h fs. reading fs h (meta_int ''width'')),
      l_height = (\<lambda>h fs. reading fs h (meta_int ''height'')),
      l_bounds = (\<lambda>h fs. reading fs h raster_bounds),
      l_count = (\<lambda>h fs. reading fs h (\<lambda>ras. map_sum id nat (meta_int ''count'' ras))),
      l_transform = (\<lambda>h fs. reading fs h meta_transform),
      l_calculate_default_transform = (\<lambda>c1 c2 wd ht bb fs.
         if c2 = ''EPSG:4326'' then (Inr (geo_transform, 3, 1), fs)
         else (Inl (UnsupportedCRS c2), fs)),
      l_reproject = (\<lambda>sb db st sc dt dc fs. (Inr (), fs)),
      l_read = (\<lambda>h fs. reading fs h (\<lambda>ras. Inr (stack (r_bands ras)))),
      l_read_band = (\<lambda>h i fs. reading fs h (\<lambda>ras.
         if 1 \<le> i \<and> i \<le> length (r_bands ras) then Inr (r_bands ras ! (i - 1))
         else Inl IndexError)),
      l_indexes = (\<lambda>h fs. reading fs h (\<lambda>ras.
         map_sum id (\<lambda>n. [1..<nat n + 1]) (meta_int ''count'' ras))),
      l_index = (\<lambda>h x y rnd fs. reading fs h (raster_index x y rnd))\<rparr>"

definition utm_transform :: affine where
  "utm_transform = \<lparr>af_a = 3, af_b = 0, af_c = 500000, af_d = 0, af_e = -3, af_f = 4000000\<rparr>"

definition sample_meta :: kwargs where
  "sample_meta =
     [(''driver'', MStr ''GTiff''), (''dtype'', MStr ''uint16''), (''nodata'', MNone),
      (''width'', MInt 3), (''height'', MInt 2), (''count'', MInt 4),
      (''crs'', MCrs ''EPSG:32610''), (''transform'', MTransform utm_transform)]"

definition sample_bands :: "ndarray list" where
  "sample_bands =
     [\<lparr>shape = [2, 3], flat = [10, 11, 12, 13, 14, 15]\<rparr>,
      \<lparr>shape = [2, 3], flat = [20, 21, 22, 23, 24, 25]\<rparr>,
      \<lparr>shape = [2, 3], flat = [30, 31, 32, 33, 34, 35]\<rparr>,
      \<lparr>shape = [2, 3], flat = [40, 41, 42, 43, 44, 45]\<rparr>]"

definition sample_files :: files where
  "sample_files =
     [(''example.tif'',
       \<lparr>r_meta = sample_meta,
        r_bands = sample_bands\<rparr>)]"

definition clipped_meta :: kwargs where
  "clipped_meta =
     [(''driver'', MStr ''GTiff''), (''dtype'', MStr ''uint16''), (''nodata'', MNone),
      (''width'', MInt 2), (''height'', MInt 1), (''count'', MInt 4),
      (''crs'', MCrs ''EPSG:32610''), (''transform'', MTransform clip_transform)]"

definition reprojected_meta :: kwargs where
  "reprojected_meta =
     [(''driver'', MStr ''GTiff''), (''dtype'', MStr ''uint16''), (''nodata'', MNone),
      (''width'', MInt 3), (''height'', MInt 1), (''count'', MInt 4),
      (''crs'', MCrs ''EPSG:4326''), (''transform'', MTransform geo_transform)]"

definition sample_bounds :: bbox where
  "sample_bounds = (500003, 3999994, 500009, 3999997)"

definition sample_trace :: "event list" where
  "sample_trace =
     (let satdat = obj 0 ''example.tif'' R;
          coll = obj 1 ''aoi.geojson'' R;
          img = obj 2 ''example.tif'' R;
          dst = obj 3 ''clipped.tif'' W;
          clipped_img = obj 4 ''clipped.tif'' R;
          reprojected = obj 5 ''clipped_4326.tif'' W;
          reproj = obj 6 ''clipped_4326.tif'' R
      in
      [EOpen satdat [] (Inr ()),
       EShow satdat (Inr ()),
       EFionaOpen coll (Inr ()),
       EFeatures coll (Inr sample_aoi),
       EClose coll,
       EOpen img [] (Inr ()),
       EMask img (map geometry sample_aoi) True (Inr (sample_clipped, clip_transform)),
       EClose img,
       EPrintShape [4, 1, 2],
       EMeta img (Inr sample_meta),
       EOpen dst clipped_meta (Inr ()),
       EWrite dst sample_clipped (Inr ()),
       EClose dst,
       EOpen clipped_img [] (Inr ()),
       EShow clipped_img (Inr ()),
       ECrs clipped_img (Inr ''EPSG:32610''),
       EWidth clipped_img (Inr 2),
       EHeight clipped_img (Inr 1),
       EBounds clipped_img (Inr sample_bounds),
       ECalc ''EPSG:32610'' ''EPSG:4326'' 2 1 sample_bounds (Inr (geo_transform, 3, 1)),
       EMeta clipped_img (Inr clipped_meta),
       EOpen reprojected reprojected_meta (Inr ()),
       ECount clipped_img (Inr 4)] @
      concat (map (\<lambda>i.
        [ETransform clipped_img (Inr clip_transform),
         ECrs clipped_img (Inr ''EPSG:32610''),
         EReproject (clipped_img, i) (reprojected, i) clip_transform ''EPSG:32610''
           geo_transform ''EPSG:4326'' (Inr ())]) [1, 2, 3, 4]) @
      [EClose reprojected,
       EOpen reproj [] (Inr ()),
       EShow reproj (Inr ())])"

text \<open>What the mask call, the default-transform call, the metadata reads and the band-count
  read returned, and the arguments of the opens for writing.\<close>

fun mask_result :: "event \<Rightarrow> (ndarray \<times> affine) option" where
  "mask_result (EMask h shapes crop (Inr res)) = Some res"
| "mask_result ev = None"

fun calc_result :: "event \<Rightarrow> (affine \<times> int \<times> int) option" where
  "calc_result (ECalc c1 c2 wd ht bb (Inr res)) = Some res"
| "calc_result ev = None"

fun write_open :: "event \<Rightarrow> (path \<times> kwargs) option" where
  "write_open (EOpen h kw r) = (if hmode h = W then Some (hname h, kw) else None)"
| "write_open ev = None"

fun meta_read :: "event \<Rightarrow> (handle \<times> kwargs) option" where
  "meta_read (EMeta h (Inr m)) = Some (h, m)"
| "meta_read ev = None"

fun count_read :: "event \<Rightarrow> (handle \<times> nat) option" where
  "count_read (ECount h (Inr k)) = Some (h, k)"
| "count_read ev = None"

definition mask_results :: "event list \<Rightarrow> (ndarray \<times> affine) list" where
  "mask_results evs = List.map_filter mask_result evs"

definition calc_results :: "event list \<Rightarrow> (affine \<times> int \<times> int) list" where
  "calc_results evs = List.map_filter calc_result evs"

definition write_opens :: "event list \<Rightarrow> (path \<times> kwargs) list" where
  "write_opens evs = List.map_filter write_open evs"

definition meta_reads :: "event list \<Rightarrow> (handle \<times> kwargs) list" where
  "meta_reads evs = List.map_filter meta_read evs"

definition count_reads :: "event list \<Rightarrow> (handle \<times> nat) list" where
  "count_reads evs = List.map_filter count_read evs"

text \<open>The vector files opened, the feature lists read from them, and every call that is
  passed geometries (only \<open>mask\<close> takes any), with its dataset and its \<open>crop\<close> flag.\<close>

fun vector_open :: "event \<Rightarrow> path option" where
  "vector_open (EFionaOpen h r) = Some (hname h)"
| "vector_open ev = None"

fun features_read :: "event \<Rightarrow> feature list option" where
  "features_read (EFeatures h (Inr fs)) = Some fs"
| "features_read ev = None"

fun geometry_use :: "event \<Rightarrow> (handle \<times> geometry list \<times> bool) option" where
  "geometry_use (EMask h shapes crop r) = Some (h, shapes, crop)"
| "geometry_use ev = None"

definition vector_opens :: "event list \<Rightarrow> path list" where
  "vector_opens evs = List.map_filter vector_open evs"

definition features_reads :: "event list \<Rightarrow> feature list list" where
  "features_reads evs = List.map_filter features_read evs"

definition geometry_uses :: "event list \<Rightarrow> (handle \<times> geometry list \<times> bool) list" where
  "geometry_uses evs = List.map_filter geometry_use evs"

text \<open>The reprojection calls: source band, destination band, destination transform and
  destination coordinate reference system.\<close>

fun reprojection :: "event \<Rightarrow> (band \<times> band \<times> affine \<times> crs) option" where
  "reprojection (EReproject sb db st sc dt dc r) = Some (sb, db, dt, dc)"
| "reprojection ev = None"

definition reprojections :: "event list \<Rightarrow> (band \<times> band \<times> affine \<times> crs) list" where
  "reprojections evs = List.map_filter reprojection evs"

text \<open>The stages of the pipeline, each one the library call that performs it. The raster
  file is opened when \<open>example.tif\<close> is opened for reading. An output file is created when
  it is opened for writing, and written by a \<open>write\<close> call on that dataset. A band is
  reprojected by a \<open>reproject\<close> call; its destination is a band of the dataset that is
  open for writing, so the call itself fills the output file. The opens of the two
  output files for reading, which only serve to show them, are no stage.\<close>

datatype stage =
  OpenRaster | ComputeMask | CreateClipped | WriteClipped | ComputeTransform |
  CreateReprojected | Reproject | WriteReprojected

fun stage_of :: "event \<Rightarrow> stage option" where
  "stage_of (EOpen h kw r) =
     (if hmode h = R then (if hname h = ''example.tif'' then Some OpenRaster else None)
      else if hname h = ''clipped.tif'' then Some CreateClipped
      else if hname h = ''clipped_4326.tif'' then Some CreateReprojected
      else None)"
| "stage_of (EMask h shapes crop r) = Some ComputeMask"
| "stage_of (EWrite h arr r) =
     (if hname h = ''clipped.tif'' then Some WriteClipped
      else if hname h = ''clipped_4326.tif'' then Some WriteReprojected
      else None)"
| "stage_of (ECalc c1 c2 wd ht bb r) = Some ComputeTransform"
| "stage_of (EReproject sb db st sc dt dc r) = Some Reproject"
| "stage_of ev = None"

definition stages :: "event list \<Rightarrow> stage list" where
  "stages evs = List.map_filter stage_of evs"

text \<open>The stages of a run that reprojects \<open>k\<close> bands: \<open>example.tif\<close> is opened twice, once
  to show it and once to mask it.\<close>

definition pipeline :: "nat \<Rightarrow> stage list" where
  "pipeline k =
     [OpenRaster, OpenRaster, ComputeMask, CreateClipped, WriteClipped, ComputeTransform,
      CreateReprojected] @ replicate k Reproject"

text \<open>The calls that follow the first call that raised.\<close>

definition after_raise :: "event list \<Rightarrow> event list" where
  "after_raise evs = tl (dropWhile (\<lambda>ev. raised ev = None) evs)"

text \<open>The error of the first call that raised, if any did.\<close>

definition first_raised :: "event list \<Rightarrow> error option" where
  "first_raised evs =
     (case dropWhile (\<lambda>ev. raised ev = None) evs of [] \<Rightarrow> None | ev # post \<Rightarrow> raised ev)"

text \<open>The objects opened and the objects closed, in the order of the calls.\<close>

fun open_of :: "event \<Rightarrow> handle option" where
  "open_of (EOpen h kw (Inr u)) = Some h"
| "open_of (EFionaOpen h (Inr u)) = Some h"
| "open_of ev = None"

fun close_of :: "event \<Rightarrow> handle option" where
  "close_of (EClose h) = Some h"
| "close_of ev = None"

definition objects :: "event list \<Rightarrow> handle list" where
  "objects evs = List.map_filter open_of evs"

definition closes :: "event list \<Rightarrow> handle list" where
  "closes evs = List.map_filter close_of evs"

text \<open>The calls made while an object is open: those after its open, up to its close or,
  when it is not closed, to the end.\<close>

definition while_open :: "handle \<Rightarrow> event list \<Rightarrow> event list" where
  "while_open h evs =
     takeWhile (\<lambda>ev. ev \<noteq> EClose h) (tl (dropWhile (\<lambda>ev. open_of ev \<noteq> Some h) evs))"

text \<open>The objects that are open after a sequence of calls: a successful open adds the
  object, a close removes it.\<close>

fun track :: "handle list \<Rightarrow> event \<Rightarrow> handle list" where
  "track hs (EOpen h kw (Inr u)) = hs @ [h]"
| "track hs (EFionaOpen h (Inr u)) = hs @ [h]"
| "track hs (EClose h) = removeAll h hs"
| "track hs ev = hs"

definition still_open :: "event list \<Rightarrow> handle list" where
  "still_open evs = foldl track [] evs"

text \<open>The events of the reprojection loop.\<close>

fun in_loop :: "event \<Rightarrow> bool" where
  "in_loop (ETransform h r) = True"
| "in_loop (ECrs h r) = True"
| "in_loop (EReproject sb db st sc dt dc r) = True"
| "in_loop ev = False"

text \<open>The ranges printed for the bands and for the whole dataset, and the calls of one
  turn of the loop over the bands when band \<open>i\<close> reads as \<open>bs i\<close>.\<close>

fun band_range :: "event \<Rightarrow> (nat \<times> int \<times> int) option" where
  "band_range (EPrintBand i lo hi) = Some (i, lo, hi)"
| "band_range ev = None"

fun overall_range :: "event \<Rightarrow> (int \<times> int) option" where
  "overall_range (EPrintOverall lo hi) = Some (lo, hi)"
| "overall_range ev = None"

definition band_ranges :: "event list \<Rightarrow> (nat \<times> int \<times> int) list" where
  "band_ranges evs = List.map_filter band_range evs"

definition overall_ranges :: "event list \<Rightarrow> (int \<times> int) list" where
  "overall_ranges evs = List.map_filter overall_range evs"

definition band_events :: "handle \<Rightarrow> (nat \<Rightarrow> ndarray) \<Rightarrow> nat \<Rightarrow> event list" where
  "band_events satdat bs i =
     [EReadBand satdat i (Inr (bs i)),
      EPrintBand i (Min (set (flat (bs i)))) (Max (set (flat (bs i))))]"

text \<open>A scene of 8000 by 4000 pixels of 3 m, north up, its upper left corner at
  (500000, 4000000): 24 km wide and 12 km high. Its bands are 0 but for a 7 in row 666,
  column 4666.\<close>

definition scene_band :: ndarray where
  "scene_band = \<lparr>shape = [4000, 8000], flat = (replicate 32000000 0)[5332666 := 7]\<rparr>"

definition scene_files :: files where
  "scene_files =
     [(''example.tif'',
       \<lparr>r_meta =
          [(''driver'', MStr ''GTiff''), (''dtype'', MStr ''uint16''), (''nodata'', MNone),
           (''width'', MInt 8000), (''height'', MInt 4000), (''count'', MInt 4),
           (''crs'', MCrs ''EPSG:32610''), (''transform'', MTransform utm_transform)],
        r_bands = [scene_band, scene_band, scene_band, scene_band]\<rparr>)]"

text \<open>A world in which the metadata of \<open>example.tif\<close> has no band count: reading
  \<open>count\<close> raises inside the with-block that holds \<open>clipped_4326.tif\<close> open.\<close>

definition uncounted_files :: files where
  "uncounted_files =
     [(''example.tif'',
       \<lparr>r_meta =
          [(''driver'', MStr ''GTiff''), (''dtype'', MStr ''uint16''), (''nodata'', MNone),
           (''width'', MInt 3), (''height'', MInt 2),
           (''crs'', MCrs ''EPSG:32610''), (''transform'', MTransform utm_transform)],
        r_bands = sample_bands\<rparr>)]"

section \<open>Runs of the notebook\<close>

lemmas prims = bnd_def call_def with_block_def rasterio_open_def fiona_open_def close_def ret_def
  lift_def log_def Let_def

lemma opens_simps [simp]:
  "opens [] = 0" "opens (ev # evs) = opened ev + opens evs" "opens (xs @ ys) = opens xs + opens ys"
  by (simp_all add: opens_def)

lemma runs_bnd:
  assumes "runs m P" and "\<And>x. runs (k x) (K x)"
  shows "runs (bnd m k) (then_shape P K)"
  unfolding runs_def
proof
  fix s
  obtain r1 s1 where m: "m s = (r1, s1)" by (cases "m s")
  from assms(1) m obtain evs1 where
    e1: "trace s1 = trace s @ evs1" "next_id s1 = next_id s + opens evs1" "P (next_id s) r1 evs1"
    by (auto simp: runs_def split: prod.splits)
  show "case bnd m k s of (r, s2) \<Rightarrow> \<exists>evs. trace s2 = trace s @ evs \<and>
          next_id s2 = next_id s + opens evs \<and> then_shape P K (next_id s) r evs"
  proof (cases r1)
    case (Inl err)
    then show ?thesis using m e1 by (auto simp: bnd_def then_shape_def)
  next
    case (Inr x)
    obtain r2 s2 where k: "k x s1 = (r2, s2)" by (cases "k x s1")
    from assms(2)[of x] k obtain evs2 where
      e2: "trace s2 = trace s1 @ evs2" "next_id s2 = next_id s1 + opens evs2" "K x (next_id s1) r2 evs2"
      by (auto simp: runs_def split: prod.splits)
    have "then_shape P K (next_id s) r2 (evs1 @ evs2)"
      unfolding then_shape_def using e1 e2 Inr by auto
    then show ?thesis using m k Inr e1 e2 by (auto simp: bnd_def)
  qed
qed

lemma runs_open: "runs (rasterio_open lib p m kw) (open_shape p m kw)"
  by (auto simp: runs_def prims open_shape_def split: prod.splits sum.splits)

lemma runs_cell_show: "runs (cell_show lib ds) (show_shape ds)"
  by (auto simp: runs_def prims cell_show_def show_shape_def split: prod.splits sum.splits)

lemma runs_cell_aoi: "runs (cell_aoi lib) aoi_shape"
  by (auto simp: runs_def prims cell_aoi_def aoi_shape_def split: prod.splits sum.splits)

lemma runs_cell_mask: "runs (cell_mask lib aoi) (mask_shape aoi)"
  by (auto simp: runs_def prims cell_mask_def mask_shape_def split: prod.splits sum.splits)

lemma runs_cell_write_clipped:
  "runs (cell_write_clipped lib img clipped t) (write_clipped_shape img clipped t)"
  by (auto simp: runs_def prims cell_write_clipped_def write_clipped_shape_def
      shape_at_def clipped_kwargs_def split: prod.splits sum.splits if_splits)

lemma runs_cell_open_clipped: "runs (cell_open_clipped lib) open_clipped_shape"
  by (auto simp: runs_def prims cell_open_clipped_def open_clipped_shape_def
      split: prod.splits sum.splits)

lemma runs_cell_calculate: "runs (cell_calculate lib h) (calculate_shape h)"
  by (auto simp: runs_def prims cell_calculate_def calculate_shape_def
      split: prod.splits sum.splits)

lemma runs_cell_metadata: "runs (cell_metadata lib h t wd ht) (metadata_shape h t wd ht)"
  by (auto simp: runs_def prims cell_metadata_def metadata_shape_def reprojected_kwargs_def
      split: prod.splits sum.splits)

lemma reproject_bands_run:
  "reproject_bands lib src dst t bs s = (r, s1) \<Longrightarrow>
   \<exists>evs. trace s1 = trace s @ evs \<and> next_id s1 = next_id s \<and> opens evs = 0 \<and> loop_shape src dst t bs r evs"
proof (induction bs arbitrary: s)
  case Nil
  then show ?case by (auto simp: ret_def)
next
  case (Cons b bs)
  show ?case
    using Cons.prems
    apply (simp add: bnd_def call_def split: prod.splits sum.splits)
       apply auto[3]
    apply (drule Cons.IH)
    apply auto
    done
qed

lemma runs_cell_reproject:
  "runs (cell_reproject lib src metadata t) (reproject_shape src metadata t)"
  apply (simp add: runs_def cell_reproject_def prims split: prod.splits sum.splits)
  apply (auto simp: reproject_shape_def dest!: reproject_bands_run)
  done

lemma runs_cell_open_reprojected: "runs (cell_open_reprojected lib) open_reprojected_shape"
  apply (auto simp: runs_def prims cell_open_reprojected_def open_reprojected_shape_def
      split: prod.splits sum.splits)
  apply (rename_tac s w1 res w2)
  apply (case_tac res)
   apply auto
  done

lemma runs_case_prod:
  "(\<And>x y. runs (k x y) (K x y)) \<Longrightarrow> runs (case p of (x, y) \<Rightarrow> k x y) (case p of (x, y) \<Rightarrow> K x y)"
  by (cases p) simp

lemma runs_notebook: "runs (clip_and_reproject lib) notebook_shape"
  unfolding clip_and_reproject_def notebook_shape_def cell_open_def
  by (intro runs_bnd runs_case_prod runs_open runs_cell_show runs_cell_aoi runs_cell_mask
      runs_cell_write_clipped runs_cell_open_clipped runs_cell_calculate runs_cell_metadata
      runs_cell_reproject runs_cell_open_reprojected)

lemma notebook_run:
  "clip_and_reproject lib (init w) = (r, s1) \<Longrightarrow> notebook_shape 0 r (trace s1)"
  using runs_notebook[of lib] by (auto simp: runs_def init_def split: prod.splits dest!: spec[of _ "init w"])

lemma clean_simps [simp]:
  "clean []" "clean (ev # evs) = (raised ev = None \<and> clean evs)"
  "clean (xs @ ys) = (clean xs \<and> clean ys)"
  by (auto simp: clean_def)

lemma dropWhile_clean [simp]:
  "clean evs \<Longrightarrow> dropWhile (\<lambda>ev. raised ev = None) (evs @ post) = dropWhile (\<lambda>ev. raised ev = None) post"
  by (simp add: clean_def dropWhile_append2)

lemma loop_raise:
  "loop_shape src dst t bs r evs \<Longrightarrow>
     (case r of Inr u \<Rightarrow> clean evs
      | Inl err \<Rightarrow> \<exists>pre ev. evs = pre @ [ev] \<and> clean pre \<and> raised ev = Some err)"
proof (induction bs arbitrary: evs)
  case Nil
  then show ?case by auto
next
  case (Cons b bs)
  from Cons.prems show ?case
    apply (simp split: sum.splits)
    apply (elim disjE exE conjE)
       apply (auto simp: err_of_def)[3]
    apply (drule Cons.IH)
    apply (auto simp: err_of_def split: sum.splits)
    done
qed

lemmas shapes = notebook_shape_def then_shape_def open_shape_def show_shape_def aoi_shape_def
  mask_shape_def write_clipped_shape_def open_clipped_shape_def calculate_shape_def
  metadata_shape_def reproject_shape_def open_reprojected_shape_def Let_def

lemmas script_defs =
  clip_and_reproject_def cell_open_def cell_show_def cell_aoi_def cell_mask_def
  cell_write_clipped_def cell_open_clipped_def cell_calculate_def cell_metadata_def
  cell_reproject_def cell_open_reprojected_def
  bnd_def call_def with_block_def rasterio_open_def fiona_open_def close_def ret_def
  lift_def log_def init_def shape_at_def image_file_def target_crs_def Let_def

lemmas memory_defs =
  memory_lib_def reading_def meta_int_def meta_crs_def meta_transform_def raster_bounds_def
  raster_index_def sample_files_def sample_meta_def sample_clipped_def dict_update_def
  subarrays_def stack_def clip_transform_def

lemma upt_bands: "[Suc 0..<4] = [1, 2, 3]"
  by (simp add: numeral_eq_Suc upt_conv_Cons)

lemma chunks_numeral:
  "chunks (numeral n) k xs = take k xs # chunks (pred_numeral n) k (drop k xs)"
  by (simp add: numeral_eq_Suc)

lemma sample_run:
  "fst (clip_and_reproject memory_lib (init sample_files)) = Inr ()"
  "trace (snd (clip_and_reproject memory_lib (init sample_files))) = sample_trace"
  by (simp_all add: script_defs memory_defs upt_bands chunks_numeral sample_trace_def obj_def
      clipped_meta_def reprojected_meta_def sample_bounds_def)

lemma map_filter_append: "List.map_filter g (xs @ ys) = List.map_filter g xs @ List.map_filter g ys"
  by (simp add: List.map_filter_def)

lemma map_filter_none: "(\<And>x. x \<in> set xs \<Longrightarrow> g x = None) \<Longrightarrow> List.map_filter g xs = []"
  by (induction xs) (auto simp: List.map_filter_simps)

lemma loop_events: "loop_shape src dst t bs r evs \<Longrightarrow> ev \<in> set evs \<Longrightarrow> in_loop ev"
  by (induction bs arbitrary: evs) auto

lemma loop_opens: "loop_shape src dst t bs r evs \<Longrightarrow> opens evs = 0"
  by (induction bs arbitrary: evs) auto

lemma in_loop_none:
  assumes "in_loop ev"
  shows "mask_result ev = None" "calc_result ev = None" "write_open ev = None"
    "meta_read ev = None" "count_read ev = None" "vector_open ev = None"
    "features_read ev = None" "geometry_use ev = None"
  using assms by (cases ev; simp)+

lemma loop_none:
  assumes "loop_shape src dst t bs r evs"
  shows "List.map_filter mask_result evs = []" "List.map_filter calc_result evs = []"
    "List.map_filter write_open evs = []" "List.map_filter meta_read evs = []"
    "List.map_filter count_read evs = []" "List.map_filter vector_open evs = []"
    "List.map_filter features_read evs = []" "List.map_filter geometry_use evs = []"
  using loop_events[OF assms] by (auto intro!: map_filter_none simp: in_loop_none)

lemmas observations = mask_results_def calc_results_def write_opens_def meta_reads_def
  count_reads_def vector_opens_def features_reads_def geometry_uses_def
  List.map_filter_simps map_filter_append loop_none image_file_def

lemma map_of_dict_update3:
  "map_of (dict_update dct [(k1, v1), (k2, v2), (k3, v3)]) =
     (map_of dct)(k1 \<mapsto> v1, k2 \<mapsto> v2, k3 \<mapsto> v3)"
  by (simp add: dict_update_def update_conv')

lemma map_of_dict_update4:
  "map_of (dict_update dct [(k1, v1), (k2, v2), (k3, v3), (k4, v4)]) =
     (map_of dct)(k1 \<mapsto> v1, k2 \<mapsto> v2, k3 \<mapsto> v3, k4 \<mapsto> v4)"
  by (simp add: dict_update_def update_conv')





lemma not_in_loop_reprojection: "\<not> in_loop ev \<Longrightarrow> reprojection ev = None"
  by (cases ev) auto



lemma loop_track: "loop_shape src dst t bs r evs \<Longrightarrow> foldl track hs evs = hs"
proof -
  have "(\<And>ev. ev \<in> set evs \<Longrightarrow> in_loop ev) \<Longrightarrow> foldl track hs evs = hs" for evs
  proof (induction evs arbitrary: hs)
    case Nil
    then show ?case by simp
  next
    case (Cons ev evs)
    have "in_loop ev" using Cons.prems by simp
    then have "track hs ev = hs" by (cases ev) auto
    then show ?case using Cons by simp
  qed
  then show "loop_shape src dst t bs r evs \<Longrightarrow> foldl track hs evs = hs"
    using loop_events by blast
qed



lemmas after_defs = after_open_def after_show_def after_aoi_def after_mask_def after_write_def
  after_reopen_def after_calculate_def after_metadata_def after_reproject_def obj_def

lemma notebook_possible: "notebook_shape 0 r evs \<Longrightarrow> possible_run r evs"
  apply (simp add: shapes loop_opens del: upt_Suc cong: conj_cong)
  apply (elim disjE exE conjE)
  apply (simp_all add: possible_run.simps after_defs image_file_def del: upt_Suc)
  apply (simp_all add: eval_nat_numeral del: upt_Suc)
  apply (auto dest: loop_opens simp del: upt_Suc)
  done

lemma possible_of_run:
  "clip_and_reproject lib (init w) = (r, s1) \<Longrightarrow> possible_run r (trace s1)"
  by (rule notebook_possible[OF notebook_run])


lemma possible_frame:
  "possible_run r evs \<Longrightarrow>
     (\<forall>kw. (''clipped.tif'', kw) \<in> set (write_opens evs) \<longrightarrow>
        (\<exists>h meta. take 1 (meta_reads evs) = [(h, meta)] \<and> hname h = ''example.tif'' \<and>
           (\<forall>k. k \<notin> {''transform'', ''height'', ''width''} \<longrightarrow> map_of kw k = map_of meta k))) \<and>
     (\<forall>kw. (''clipped_4326.tif'', kw) \<in> set (write_opens evs) \<longrightarrow>
        (\<exists>h meta. drop 1 (meta_reads evs) = [(h, meta)] \<and> hname h = ''clipped.tif'' \<and>
           (\<forall>k. k \<notin> {''crs'', ''transform'', ''width'', ''height''} \<longrightarrow>
              map_of kw k = map_of meta k)))"
  by (erule possible_run.cases)
    (simp_all add: after_defs observations clipped_kwargs_def reprojected_kwargs_def
      map_of_dict_update3 map_of_dict_update4 del: upt_Suc)


lemma possible_still_open:
  "possible_run r evs \<Longrightarrow>
     set (still_open evs) \<subseteq>
       {obj 0 ''example.tif'' R, obj 4 ''clipped.tif'' R, obj 6 ''clipped_4326.tif'' R} \<and>
     (r = Inr () \<longrightarrow>
        still_open evs =
          [obj 0 ''example.tif'' R, obj 4 ''clipped.tif'' R, obj 6 ''clipped_4326.tif'' R])"
  by (erule possible_run.cases)
    (simp_all add: after_defs still_open_def loop_track del: upt_Suc)

lemma possible_propagated: "possible_run r evs \<Longrightarrow> propagated r evs"
  by (erule possible_run.cases)
    (auto simp: after_defs propagated_def err_of_def dest!: loop_raise split: sum.splits
      simp del: upt_Suc)



lemma sample_observations:
  "write_opens sample_trace =
     [(''clipped.tif'', clipped_meta), (''clipped_4326.tif'', reprojected_meta)]"
  "mask_results sample_trace = [(sample_clipped, clip_transform)]"
  "calc_results sample_trace = [(geo_transform, 3, 1)]"
  "meta_reads sample_trace =
     [(obj 2 ''example.tif'' R, sample_meta), (obj 4 ''clipped.tif'' R, clipped_meta)]"
  "count_reads sample_trace = [(obj 4 ''clipped.tif'' R, 4)]"
  "vector_opens sample_trace = [''aoi.geojson'']"
  "features_reads sample_trace = [sample_aoi]"
  "geometry_uses sample_trace = [(obj 2 ''example.tif'' R, map geometry sample_aoi, True)]"
  "reprojections sample_trace =
     map (\<lambda>i. ((obj 4 ''clipped.tif'' R, i), (obj 5 ''clipped_4326.tif'' W, i),
                geo_transform, ''EPSG:4326'')) [1, 2, 3, 4]"
  "stages sample_trace = pipeline 4"
  "still_open sample_trace =
     [obj 0 ''example.tif'' R, obj 4 ''clipped.tif'' R, obj 6 ''clipped_4326.tif'' R]"
  by (simp_all add: sample_trace_def obj_def mask_results_def calc_results_def write_opens_def
      meta_reads_def count_reads_def vector_opens_def features_reads_def geometry_uses_def
      map_filter_append reprojections_def stages_def pipeline_def still_open_def
      eval_nat_numeral Let_def)

lemma print_band_ranges_run:
  assumes "\<forall>i\<in>set idxs. l_read_band lib satdat i (world s) = (Inr (bs i), world s)"
    and "print_band_ranges lib satdat idxs s = (Inr (), s1)"
  shows "world s1 = world s \<and> trace s1 = trace s @ concat (map (band_events satdat bs) idxs) \<and>
     (\<forall>i\<in>set idxs. flat (bs i) \<noteq> [])"
  using assms
proof (induction idxs arbitrary: s)
  case Nil
  then show ?case by (simp add: ret_def)
next
  case (Cons i idxs)
  let ?s2 = "s\<lparr>trace := trace s @ band_events satdat bs i\<rparr>"
  have rb: "l_read_band lib satdat i (world s) = (Inr (bs i), world s)"
    using Cons.prems(1) by simp
  have ne: "flat (bs i) \<noteq> []"
    using Cons.prems(2) rb
    by (auto simp: bnd_def call_def lift_def amin_def split: if_splits)
  have step: "print_band_ranges lib satdat (i # idxs) s = print_band_ranges lib satdat idxs ?s2"
    using rb ne by (simp add: bnd_def call_def lift_def log_def amin_def amax_def band_events_def)
  have "\<forall>j\<in>set idxs. l_read_band lib satdat j (world ?s2) = (Inr (bs j), world ?s2)"
    using Cons.prems(1) by simp
  moreover have "print_band_ranges lib satdat idxs ?s2 = (Inr (), s1)"
    using Cons.prems(2) step by simp
  ultimately have "world s1 = world ?s2 \<and>
      trace s1 = trace ?s2 @ concat (map (band_events satdat bs) idxs) \<and>
      (\<forall>j\<in>set idxs. flat (bs j) \<noteq> [])"
    by (rule Cons.IH)
  then show ?case using ne by simp
qed

lemma Min_concat:
  assumes "xss \<noteq> []" and "\<forall>xs\<in>set xss. xs \<noteq> []"
  shows "Min (set (concat xss)) = Min (set (map (\<lambda>xs. Min (set xs)) xss))"
  using assms
proof (induction xss)
  case Nil
  then show ?case by simp
next
  case (Cons xs xss)
  show ?case
  proof (cases "xss = []")
    case True
    then show ?thesis by simp
  next
    case False
    have ne: "set xs \<noteq> {}" "set (concat xss) \<noteq> {}"
      using Cons.prems False by (auto simp: neq_Nil_conv)
    have ih: "Min (set (concat xss)) = Min (set (map (\<lambda>xs. Min (set xs)) xss))"
      using Cons False by simp
    have ne2: "set (map (\<lambda>xs. Min (set xs)) xss) \<noteq> {}" using False by simp
    have "Min (set (concat (xs # xss))) = min (Min (set xs)) (Min (set (concat xss)))"
      using ne by (simp add: Min_Un)
    also have "\<dots> = Min (insert (Min (set xs)) (set (map (\<lambda>xs. Min (set xs)) xss)))"
      using ne2 ih by (simp add: Min_insert del: set_map)
    finally show ?thesis by simp
  qed
qed

lemma Max_concat:
  assumes "xss \<noteq> []" and "\<forall>xs\<in>set xss. xs \<noteq> []"
  shows "Max (set (concat xss)) = Max (set (map (\<lambda>xs. Max (set xs)) xss))"
  using assms
proof (induction xss)
  case Nil
  then show ?case by simp
next
  case (Cons xs xss)
  show ?case
  proof (cases "xss = []")
    case True
    then show ?thesis by simp
  next
    case False
    have ne: "set xs \<noteq> {}" "set (concat xss) \<noteq> {}"
      using Cons.prems False by (auto simp: neq_Nil_conv)
    have ih: "Max (set (concat xss)) = Max (set (map (\<lambda>xs. Max (set xs)) xss))"
      using Cons False by simp
    have ne2: "set (map (\<lambda>xs. Max (set xs)) xss) \<noteq> {}" using False by simp
    have "Max (set (concat (xs # xss))) = max (Max (set xs)) (Max (set (concat xss)))"
      using ne by (simp add: Max_Un)
    also have "\<dots> = Max (insert (Max (set xs)) (set (map (\<lambda>xs. Max (set xs)) xss)))"
      using ne2 ih by (simp add: Max_insert del: set_map)
    finally show ?thesis by simp
  qed
qed

lemma band_ranges_events:
  "List.map_filter band_range (concat (map (band_events satdat bs) idxs)) =
     map (\<lambda>i. (i, Min (set (flat (bs i))), Max (set (flat (bs i))))) idxs"
  by (induction idxs) (simp_all add: band_events_def map_filter_append)

lemma overall_ranges_events:
  "List.map_filter overall_range (concat (map (band_events satdat bs) idxs)) = []"
  by (induction idxs) (simp_all add: band_events_def map_filter_append)

lemma sample_indexes:
  "l_indexes memory_lib (obj 0 ''example.tif'' R) sample_files = (Inr [1, 2, 3, 4], sample_files)"
  by (simp add: memory_defs obj_def upt_bands)

lemma sample_read_band:
  "\<forall>i\<in>set [1, 2, 3, 4]. l_read_band memory_lib (obj 0 ''example.tif'' R) i sample_files =
     (Inr (sample_bands ! (i - 1)), sample_files)"
  by (simp add: memory_defs obj_def sample_bands_def)

lemma sample_read:
  "l_read memory_lib (obj 0 ''example.tif'' R) sample_files =
     (Inr (stack (map (\<lambda>i. sample_bands ! (i - 1)) [1, 2, 3, 4])), sample_files)"
  by (simp add: memory_defs obj_def sample_bands_def)

lemma sample_minmax:
  "fst (cell_minmax memory_lib (obj 0 ''example.tif'' R) (init sample_files)) = Inr ()"
  by (simp add: cell_minmax_def bnd_def call_def lift_def log_def ret_def init_def amin_def
      amax_def memory_defs obj_def upt_bands sample_bands_def)

lemma floor_ten_km: "\<lfloor>- (10000 / 3 :: rat)\<rfloor> = - 3334"
  by (rule floor_unique) simp_all

lemma loop_takeWhile:
  "loop_shape src dst t bs r evs \<Longrightarrow>
     takeWhile (\<lambda>ev. ev \<noteq> EClose h) (evs @ rest) = evs @ takeWhile (\<lambda>ev. ev \<noteq> EClose h) rest"
  by (rule takeWhile_append2) (auto dest: loop_events)

lemma loop_all: "loop_shape src dst t bs r evs \<Longrightarrow> list_all in_loop evs"
  by (auto simp: list_all_iff dest: loop_events)

lemma in_loop_quiet:
  assumes "in_loop ev"
  shows "open_of ev = None" "close_of ev = None"
  using assms by (cases ev; simp)+

lemma loop_quiet:
  assumes "loop_shape src dst t bs r evs"
  shows "List.map_filter open_of evs = []" "List.map_filter close_of evs = []"
  using loop_events[OF assms] by (auto intro!: map_filter_none simp: in_loop_quiet)



lemma possible_first_raised:
  "possible_run r evs \<Longrightarrow>
     (r = Inr () \<longrightarrow> first_raised evs = None) \<and>
     (\<forall>err. r = Inl err \<longrightarrow>
        first_raised evs = Some err \<or>
        (first_raised evs = None \<and> err = IndexError \<and>
         (\<exists>clipped t. mask_results evs = [(clipped, t)] \<and> length (shape clipped) < 3)))"
  by (erule possible_run.cases)
    (auto simp: after_defs first_raised_def observations err_of_def dest!: loop_raise
      split: sum.splits simp del: upt_Suc)

lemma possible_objects:
  "possible_run r evs \<Longrightarrow>
     prefix (objects evs)
       [obj 0 ''example.tif'' R, obj 1 ''aoi.geojson'' R, obj 2 ''example.tif'' R,
        obj 3 ''clipped.tif'' W, obj 4 ''clipped.tif'' R, obj 5 ''clipped_4326.tif'' W,
        obj 6 ''clipped_4326.tif'' R] \<and>
     subseq (closes evs)
       [obj 1 ''aoi.geojson'' R, obj 2 ''example.tif'' R, obj 3 ''clipped.tif'' W,
        obj 5 ''clipped_4326.tif'' W] \<and>
     (r = Inr () \<longrightarrow>
        objects evs =
          [obj 0 ''example.tif'' R, obj 1 ''aoi.geojson'' R, obj 2 ''example.tif'' R,
           obj 3 ''clipped.tif'' W, obj 4 ''clipped.tif'' R, obj 5 ''clipped_4326.tif'' W,
           obj 6 ''clipped_4326.tif'' R] \<and>
        closes evs =
          [obj 1 ''aoi.geojson'' R, obj 2 ''example.tif'' R, obj 3 ''clipped.tif'' W,
           obj 5 ''clipped_4326.tif'' W])"
  by (erule possible_run.cases)
    (simp_all add: after_defs objects_def closes_def List.map_filter_simps map_filter_append
      loop_quiet del: upt_Suc)

lemma possible_while_open:
  "possible_run r evs \<Longrightarrow>
     (obj 1 ''aoi.geojson'' R \<in> set (objects evs) \<longrightarrow>
        (\<exists>fr. while_open (obj 1 ''aoi.geojson'' R) evs = [EFeatures (obj 1 ''aoi.geojson'' R) fr])) \<and>
     (obj 2 ''example.tif'' R \<in> set (objects evs) \<longrightarrow>
        (\<exists>aoi mr. while_open (obj 2 ''example.tif'' R) evs =
           [EMask (obj 2 ''example.tif'' R) aoi True mr])) \<and>
     (obj 3 ''clipped.tif'' W \<in> set (objects evs) \<longrightarrow>
        (\<exists>arr wr. while_open (obj 3 ''clipped.tif'' W) evs =
           [EWrite (obj 3 ''clipped.tif'' W) arr wr])) \<and>
     (obj 5 ''clipped_4326.tif'' W \<in> set (objects evs) \<longrightarrow>
        (\<exists>cr levs. while_open (obj 5 ''clipped_4326.tif'' W) evs =
           ECount (obj 4 ''clipped.tif'' R) cr # levs \<and> list_all in_loop levs))"
  by (erule possible_run.cases)
    (simp_all add: after_defs objects_def while_open_def List.map_filter_simps map_filter_append
      loop_quiet loop_takeWhile loop_all del: upt_Suc)


lemma possible_lifetimes:
  assumes "possible_run r evs"
  shows
    "prefix (objects evs)
       [obj 0 ''example.tif'' R, obj 1 ''aoi.geojson'' R, obj 2 ''example.tif'' R,
        obj 3 ''clipped.tif'' W, obj 4 ''clipped.tif'' R, obj 5 ''clipped_4326.tif'' W,
        obj 6 ''clipped_4326.tif'' R] \<and>
     subseq (closes evs)
       [obj 1 ''aoi.geojson'' R, obj 2 ''example.tif'' R, obj 3 ''clipped.tif'' W,
        obj 5 ''clipped_4326.tif'' W] \<and>
     set (still_open evs) \<subseteq>
       {obj 0 ''example.tif'' R, obj 4 ''clipped.tif'' R, obj 6 ''clipped_4326.tif'' R} \<and>
     (obj 1 ''aoi.geojson'' R \<in> set (objects evs) \<longrightarrow>
        (\<exists>fr. while_open (obj 1 ''aoi.geojson'' R) evs = [EFeatures (obj 1 ''aoi.geojson'' R) fr])) \<and>
     (obj 2 ''example.tif'' R \<in> set (objects evs) \<longrightarrow>
        (\<exists>aoi mr. while_open (obj 2 ''example.tif'' R) evs =
           [EMask (obj 2 ''example.tif'' R) aoi True mr])) \<and>
     (obj 3 ''clipped.tif'' W \<in> set (objects evs) \<longrightarrow>
        (\<exists>arr wr. while_open (obj 3 ''clipped.tif'' W) evs =
           [EWrite (obj 3 ''clipped.tif'' W) arr wr])) \<and>
     (obj 5 ''clipped_4326.tif'' W \<in> set (objects evs) \<longrightarrow>
        (\<exists>cr levs. while_open (obj 5 ''clipped_4326.tif'' W) evs =
           ECount (obj 4 ''clipped.tif'' R) cr # levs \<and> list_all in_loop levs)) \<and>
     (r = Inr () \<longrightarrow>
        objects evs =
          [obj 0 ''example.tif'' R, obj 1 ''aoi.geojson'' R, obj 2 ''example.tif'' R,
           obj 3 ''clipped.tif'' W, obj 4 ''clipped.tif'' R, obj 5 ''clipped_4326.tif'' W,
           obj 6 ''clipped_4326.tif'' R] \<and>
        closes evs =
          [obj 1 ''aoi.geojson'' R, obj 2 ''example.tif'' R, obj 3 ''clipped.tif'' W,
           obj 5 ''clipped_4326.tif'' W] \<and>
        still_open evs =
          [obj 0 ''example.tif'' R, obj 4 ''clipped.tif'' R, obj 6 ''clipped_4326.tif'' R])"
  using possible_objects[OF assms] possible_still_open[OF assms] possible_while_open[OF assms]
  by blast

lemma possible_errors:
  assumes "possible_run r evs"
  shows
    "propagated r evs \<and>
     (r = Inr () \<longrightarrow> first_raised evs = None) \<and>
     (\<forall>err. r = Inl err \<longrightarrow>
        first_raised evs = Some err \<or>
        (first_raised evs = None \<and> err = IndexError \<and>
         (\<exists>clipped t. mask_results evs = [(clipped, t)] \<and> length (shape clipped) < 3)))"
  using possible_propagated[OF assms] possible_first_raised[OF assms] by blast

lemma uncounted_run:
  "fst (clip_and_reproject memory_lib (init uncounted_files)) = Inl (LibraryError ''count'')"
  "first_raised (trace (snd (clip_and_reproject memory_lib (init uncounted_files)))) =
     Some (LibraryError ''count'')"
  "after_raise (trace (snd (clip_and_reproject memory_lib (init uncounted_files)))) =
     [EClose (obj 5 ''clipped_4326.tif'' W)]"
  by (simp_all add: script_defs memory_defs upt_bands chunks_numeral obj_def uncounted_files_def
      first_raised_def after_raise_def err_of_def)

lemma sample_lifetimes:
  "objects sample_trace =
     [obj 0 ''example.tif'' R, obj 1 ''aoi.geojson'' R, obj 2 ''example.tif'' R,
      obj 3 ''clipped.tif'' W, obj 4 ''clipped.tif'' R, obj 5 ''clipped_4326.tif'' W,
      obj 6 ''clipped_4326.tif'' R]"
  "closes sample_trace =
     [obj 1 ''aoi.geojson'' R, obj 2 ''example.tif'' R, obj 3 ''clipped.tif'' W,
      obj 5 ''clipped_4326.tif'' W]"
  "while_open (obj 1 ''aoi.geojson'' R) sample_trace =
     [EFeatures (obj 1 ''aoi.geojson'' R) (Inr sample_aoi)]"
  "while_open (obj 2 ''example.tif'' R) sample_trace =
     [EMask (obj 2 ''example.tif'' R) (map geometry sample_aoi) True
        (Inr (sample_clipped, clip_transform))]"
  "while_open (obj 3 ''clipped.tif'' W) sample_trace =
     [EWrite (obj 3 ''clipped.tif'' W) sample_clipped (Inr ())]"
  "first_raised sample_trace = None"
  "stages sample_trace =
     [OpenRaster, OpenRaster, ComputeMask, CreateClipped, WriteClipped, ComputeTransform,
      CreateReprojected, Reproject, Reproject, Reproject, Reproject]"
  by (simp_all add: sample_trace_def obj_def objects_def closes_def while_open_def
      first_raised_def stages_def map_filter_append List.map_filter_simps err_of_def Let_def)

section \<open>Claims\<close>

text \<open>
  C5. Every library error is propagated unchanged, and the notebook raises no error of
  its own making. In every run, from any world and for any behaviour of the libraries:
  when a library call raises, the error of the first call that raised is the result of
  the run, and no call follows it except the closing of the with-blocks being left; a
  run that succeeds has no call that raised; and the error of a run that fails is the
  error a library call raised. The one failure without a library error is that of the
  expression \<open>clipped.shape[1]\<close>, with which Python raises \<open>IndexError\<close> when the array
  that \<open>mask\<close> returned has fewer than three dimensions. So nothing is caught, retried,
  recovered from or validated.
\<close>

theorem errors_propagate_unchanged:
  assumes "clip_and_reproject lib (init w) = (r, s1)"
  shows
    "propagated r (trace s1) \<and>
     (r = Inr () \<longrightarrow> first_raised (trace s1) = None) \<and>
     (\<forall>err. r = Inl err \<longrightarrow>
        first_raised (trace s1) = Some err \<or>
        (first_raised (trace s1) = None \<and> err = IndexError \<and>
         (\<exists>clipped t. mask_results (trace s1) = [(clipped, t)] \<and> length (shape clipped) < 3)))"
  using possible_errors[OF possible_of_run[OF assms]] .

theorem errors_propagate_unchanged_witness:
  "fst (clip_and_reproject memory_lib (init uncounted_files)) = Inl (LibraryError ''count'') \<and>
   first_raised (trace (snd (clip_and_reproject memory_lib (init uncounted_files)))) =
     Some (LibraryError ''count'') \<and>
   after_raise (trace (snd (clip_and_reproject memory_lib (init uncounted_files)))) =
     [EClose (obj 5 ''clipped_4326.tif'' W)]"
  using errors_propagate_unchanged[OF surjective_pairing, of memory_lib uncounted_files]
  by (simp add: uncounted_run)






text \<open>
  C3. Each output file is created from a copy of its input's metadata in which only
  the listed keys are updated. In every run: the keyword arguments with which
  \<open>clipped.tif\<close> is opened for writing agree with the metadata read from the dataset
  opened on \<open>example.tif\<close> on every key but \<open>transform\<close>, \<open>height\<close> and \<open>width\<close>; those
  of \<open>clipped_4326.tif\<close> agree with the metadata read from the dataset opened on
  \<open>clipped.tif\<close> on every key but \<open>crs\<close>, \<open>transform\<close>, \<open>width\<close> and \<open>height\<close>. So the
  driver, the band count, the pixel type and the nodata value are passed on unchanged.
\<close>

theorem metadata_copied_but_listed_keys:
  assumes "clip_and_reproject lib (init w) = (r, s1)"
  shows
    "(\<forall>kw. (''clipped.tif'', kw) \<in> set (write_opens (trace s1)) \<longrightarrow>
        (\<exists>h meta. take 1 (meta_reads (trace s1)) = [(h, meta)] \<and> hname h = ''example.tif'' \<and>
           (\<forall>k. k \<notin> {''transform'', ''height'', ''width''} \<longrightarrow> map_of kw k = map_of meta k))) \<and>
     (\<forall>kw. (''clipped_4326.tif'', kw) \<in> set (write_opens (trace s1)) \<longrightarrow>
        (\<exists>h meta. drop 1 (meta_reads (trace s1)) = [(h, meta)] \<and> hname h = ''clipped.tif'' \<and>
           (\<forall>k. k \<notin> {''crs'', ''transform'', ''width'', ''height''} \<longrightarrow>
              map_of kw k = map_of meta k)))"
  using possible_frame[OF possible_of_run[OF assms]] .

theorem metadata_copied_but_listed_keys_witness:
  "(''clipped.tif'', clipped_meta) \<in> set (write_opens sample_trace) \<and>
   take 1 (meta_reads sample_trace) = [(obj 2 ''example.tif'' R, sample_meta)] \<and>
   map_of clipped_meta ''driver'' = map_of sample_meta ''driver'' \<and>
   map_of clipped_meta ''count'' = map_of sample_meta ''count'' \<and>
   map_of clipped_meta ''dtype'' = map_of sample_meta ''dtype'' \<and>
   map_of clipped_meta ''nodata'' = map_of sample_meta ''nodata'' \<and>
   (''clipped_4326.tif'', reprojected_meta) \<in> set (write_opens sample_trace) \<and>
   drop 1 (meta_reads sample_trace) = [(obj 4 ''clipped.tif'' R, clipped_meta)] \<and>
   map_of reprojected_meta ''driver'' = map_of clipped_meta ''driver'' \<and>
   map_of reprojected_meta ''count'' = map_of clipped_meta ''count''"
  using metadata_copied_but_listed_keys[OF surjective_pairing, of memory_lib sample_files]
  by (simp add: sample_run sample_observations clipped_meta_def reprojected_meta_def
      sample_meta_def)

text \<open>
  C4, as amended. A dataset or collection opened in a with-block (the second, third,
  fourth and sixth object opened: the collection on \<open>aoi.geojson\<close>, \<open>img\<close>, \<open>dst\<close>,
  \<open>reprojected\<close>) is closed when the block is left, also when the block raises; the
  datasets bound by plain assignment (\<open>satdat\<close>, \<open>clipped_img\<close>, \<open>reproj\<close>: the first,
  fifth and seventh object opened) are never closed. In every run: the objects are
  opened in this order; only with-block objects are closed, each at most once, in the
  order of their blocks; the objects still open at the end are among the three plainly
  assigned ones, so every with-block object that was opened has been closed, whether
  the run failed or not; and the calls made while a with-block object is open are
  those of its block and no others: the one read of the features, the one \<open>mask\<close> call,
  the one \<open>write\<close> call, and the band count with the calls of the reprojection loop.
  After a run that succeeds all seven objects have been opened, the four of the
  with-blocks closed, and the other three are open.
\<close>

theorem only_with_blocks_close:
  assumes "clip_and_reproject lib (init w) = (r, s1)"
  shows
    "prefix (objects (trace s1))
       [obj 0 ''example.tif'' R, obj 1 ''aoi.geojson'' R, obj 2 ''example.tif'' R,
        obj 3 ''clipped.tif'' W, obj 4 ''clipped.tif'' R, obj 5 ''clipped_4326.tif'' W,
        obj 6 ''clipped_4326.tif'' R] \<and>
     subseq (closes (trace s1))
       [obj 1 ''aoi.geojson'' R, obj 2 ''example.tif'' R, obj 3 ''clipped.tif'' W,
        obj 5 ''clipped_4326.tif'' W] \<and>
     set (still_open (trace s1)) \<subseteq>
       {obj 0 ''example.tif'' R, obj 4 ''clipped.tif'' R, obj 6 ''clipped_4326.tif'' R} \<and>
     (obj 1 ''aoi.geojson'' R \<in> set (objects (trace s1)) \<longrightarrow>
        (\<exists>fr. while_open (obj 1 ''aoi.geojson'' R) (trace s1) =
           [EFeatures (obj 1 ''aoi.geojson'' R) fr])) \<and>
     (obj 2 ''example.tif'' R \<in> set (objects (trace s1)) \<longrightarrow>
        (\<exists>aoi mr. while_open (obj 2 ''example.tif'' R) (trace s1) =
           [EMask (obj 2 ''example.tif'' R) aoi True mr])) \<and>
     (obj 3 ''clipped.tif'' W \<in> set (objects (trace s1)) \<longrightarrow>
        (\<exists>arr wr. while_open (obj 3 ''clipped.tif'' W) (trace s1) =
           [EWrite (obj 3 ''clipped.tif'' W) arr wr])) \<and>
     (obj 5 ''clipped_4326.tif'' W \<in> set (objects (trace s1)) \<longrightarrow>
        (\<exists>cr levs. while_open (obj 5 ''clipped_4326.tif'' W) (trace s1) =
           ECount (obj 4 ''clipped.tif'' R) cr # levs \<and> list_all in_loop levs)) \<and>
     (r = Inr () \<longrightarrow>
        objects (trace s1) =
          [obj 0 ''example.tif'' R, obj 1 ''aoi.geojson'' R, obj 2 ''example.tif'' R,
           obj 3 ''clipped.tif'' W, obj 4 ''clipped.tif'' R, obj 5 ''clipped_4326.tif'' W,
           obj 6 ''clipped_4326.tif'' R] \<and>
        closes (trace s1) =
          [obj 1 ''aoi.geojson'' R, obj 2 ''example.tif'' R, obj 3 ''clipped.tif'' W,
           obj 5 ''clipped_4326.tif'' W] \<and>
        still_open (trace s1) =
          [obj 0 ''example.tif'' R, obj 4 ''clipped.tif'' R, obj 6 ''clipped_4326.tif'' R])"
  using possible_lifetimes[OF possible_of_run[OF assms]] .

theorem only_with_blocks_close_witness:
  "closes sample_trace =
     [obj 1 ''aoi.geojson'' R, obj 2 ''example.tif'' R, obj 3 ''clipped.tif'' W,
      obj 5 ''clipped_4326.tif'' W] \<and>
   still_open sample_trace =
     [obj 0 ''example.tif'' R, obj 4 ''clipped.tif'' R, obj 6 ''clipped_4326.tif'' R] \<and>
   while_open (obj 2 ''example.tif'' R) sample_trace =
     [EMask (obj 2 ''example.tif'' R) (map geometry sample_aoi) True
        (Inr (sample_clipped, clip_transform))] \<and>
   while_open (obj 3 ''clipped.tif'' W) sample_trace =
     [EWrite (obj 3 ''clipped.tif'' W) sample_clipped (Inr ())]"
  using only_with_blocks_close[OF surjective_pairing, of memory_lib sample_files]
  by (simp add: sample_run sample_observations sample_lifetimes)

text \<open>
  C4, as stated, fails: after the run on the in-memory library, which succeeds, datasets
  are still open.
\<close>

theorem datasets_left_open:
  "still_open (trace (snd (clip_and_reproject memory_lib (init sample_files)))) \<noteq> []"
  by (simp add: sample_run sample_observations)





text \<open>
  C9. The overall range is the range of the band ranges. Let the library return the
  band indexes \<open>idxs\<close>, for band \<open>i\<close> the array \<open>bs i\<close>, and for the full read the stack of
  these arrays, none of the three reads changing the world. Then in a run of the cell
  that succeeds, the line printed for band \<open>i\<close> carries the least and the greatest value
  of \<open>bs i\<close>, and the overall line carries the least of the minimums printed for the bands
  and the greatest of their maximums. Pixel values are integers.
\<close>

theorem overall_range_is_range_of_bands:
  assumes indexes: "l_indexes lib satdat w = (Inr idxs, w)"
    and bands: "\<forall>i\<in>set idxs. l_read_band lib satdat i w = (Inr (bs i), w)"
    and full: "l_read lib satdat w = (Inr (stack (map bs idxs)), w)"
    and run: "cell_minmax lib satdat (init w) = (Inr (), s1)"
  shows "band_ranges (trace s1) =
           map (\<lambda>i. (i, Min (set (flat (bs i))), Max (set (flat (bs i))))) idxs \<and>
         overall_ranges (trace s1) =
           [(Min (set (map (\<lambda>(i, lo, hi). lo) (band_ranges (trace s1)))),
             Max (set (map (\<lambda>(i, lo, hi). hi) (band_ranges (trace s1)))))]"
proof -
  let ?s0 = "(init w)\<lparr>trace := [EIndexes satdat (Inr idxs)]\<rparr>"
  obtain r2 s2 where loop: "print_band_ranges lib satdat idxs ?s0 = (r2, s2)"
    by (cases "print_band_ranges lib satdat idxs ?s0")
  have r2: "r2 = Inr ()"
    using run indexes loop by (cases r2) (auto simp: cell_minmax_def bnd_def call_def init_def)
  have "\<forall>i\<in>set idxs. l_read_band lib satdat i (world ?s0) = (Inr (bs i), world ?s0)"
    using bands by (simp add: init_def)
  from print_band_ranges_run[OF this loop[unfolded r2]]
  have s2: "world s2 = w"
      "trace s2 = EIndexes satdat (Inr idxs) # concat (map (band_events satdat bs) idxs)"
      "\<forall>i\<in>set idxs. flat (bs i) \<noteq> []"
    by (simp_all add: init_def)
  let ?data = "stack (map bs idxs)"
  have rest: "bnd (call (ERead satdat) (l_read lib satdat)) (\<lambda>data.
       bnd (lift (amin data)) (\<lambda>lo. bnd (lift (amax data)) (\<lambda>hi. log (EPrintOverall lo hi)))) s2
       = (Inr (), s1)"
    using run indexes loop r2 by (simp add: cell_minmax_def bnd_def call_def init_def)
  have ne: "flat ?data \<noteq> []"
    using rest full s2(1)
    by (auto simp: bnd_def call_def lift_def amin_def split: if_splits)
  then have idxs_ne: "map (\<lambda>i. flat (bs i)) idxs \<noteq> []"
    by (auto simp: stack_def)
  have all_ne: "\<forall>xs\<in>set (map (\<lambda>i. flat (bs i)) idxs). xs \<noteq> []"
    using s2(3) by auto
  have flat_data: "flat ?data = concat (map (\<lambda>i. flat (bs i)) idxs)"
    by (simp add: stack_def comp_def)
  have tr: "trace s1 = trace s2 @ [ERead satdat (Inr ?data),
      EPrintOverall (Min (set (flat ?data))) (Max (set (flat ?data)))]"
    using rest full s2(1) ne
    by (auto simp: bnd_def call_def lift_def log_def amin_def amax_def)
  have br: "band_ranges (trace s1) =
      map (\<lambda>i. (i, Min (set (flat (bs i))), Max (set (flat (bs i))))) idxs"
    by (simp add: tr s2(2) band_ranges_def map_filter_append band_ranges_events)
  have ov: "overall_ranges (trace s1) = [(Min (set (flat ?data)), Max (set (flat ?data)))]"
    by (simp add: tr s2(2) overall_ranges_def map_filter_append overall_ranges_events)
  have mn: "Min (set (flat ?data)) = Min (set (map (\<lambda>(i, lo, hi). lo) (band_ranges (trace s1))))"
    unfolding flat_data br Min_concat[OF idxs_ne all_ne] by (simp add: comp_def)
  have mx: "Max (set (flat ?data)) = Max (set (map (\<lambda>(i, lo, hi). hi) (band_ranges (trace s1))))"
    unfolding flat_data br Max_concat[OF idxs_ne all_ne] by (simp add: comp_def)
  show ?thesis using br ov mn mx by simp
qed

theorem overall_range_is_range_of_bands_witness:
  "band_ranges (trace (snd (cell_minmax memory_lib (obj 0 ''example.tif'' R) (init sample_files)))) =
     [(1, 10, 15), (2, 20, 25), (3, 30, 35), (4, 40, 45)] \<and>
   overall_ranges (trace (snd (cell_minmax memory_lib (obj 0 ''example.tif'' R) (init sample_files)))) =
     [(10, 45)]"
proof -
  have run: "cell_minmax memory_lib (obj 0 ''example.tif'' R) (init sample_files) =
      (Inr (), snd (cell_minmax memory_lib (obj 0 ''example.tif'' R) (init sample_files)))"
    using sample_minmax by (metis prod.collapse)
  show ?thesis
    using overall_range_is_range_of_bands[OF sample_indexes sample_read_band sample_read run]
    by (simp add: sample_bands_def)
qed

text \<open>
  C10. The pixel looked up is meant to lie inside the raster (the cell's comment: 10 km
  east and 10 km south of the upper left corner), but the cell subtracts 10000 from
  \<open>bounds.left\<close> and adds 10000 to \<open>bounds.top\<close>. On the 24 km by 12 km scene the row and
  the column it computes are both \<open>-3334\<close>, and indexing a band with them does not raise
  but wraps around to the pixel in row 666 and column 4666, whose value 7 it returns.
\<close>

theorem lookup_lands_outside_raster:
  "fst (cell_locate memory_lib (obj 0 ''example.tif'' R) (init scene_files)) = Inr (- 3334, - 3334) \<and>
   getitem2 scene_band (- 3334) (- 3334) = Inr 7 \<and>
   getitem2 scene_band 666 4666 = Inr 7 \<and>
   getitem2 scene_band 0 0 = Inr 0"
  by (simp add: cell_locate_def bnd_def call_def ret_def init_def Let_def memory_defs obj_def
      scene_files_def scene_band_def utm_transform_def getitem2_def floor_ten_km)

end
